theory Spec2Isabelle
  imports Complex_Main "HOL-Library.Sublist" "HOL-Library.Log_Nat"
begin

section \<open>Double-precision numbers\<close>

text \<open>
  A JavaScript number is an IEEE 754 double. The model carries the value of a finite
  double as a real number and rounds the exact result of every arithmetic operation to the
  nearest double, a tie going to the even significand, as the language does. Subnormal
  numbers are covered; a result beyond the largest double (overflow to an infinity) is not:
  the model rounds it with an unbounded exponent.
\<close>

text \<open>The binary exponent of a non-zero number: \<open>2 powi expo x \<le> |x| < 2 powi (expo x + 1)\<close>.\<close>

definition expo :: "real \<Rightarrow> int" where
  "expo x = (if 1 \<le> \<bar>x\<bar> then bitlen \<lfloor>\<bar>x\<bar>\<rfloor> - 1 else - bitlen (\<lceil>1 / \<bar>x\<bar>\<rceil> - 1))"

text \<open>The spacing of the doubles around \<open>x\<close>: 53 significant bits, the exponent not below
  that of the smallest normal number.\<close>

definition ulp :: "real \<Rightarrow> real" where
  "ulp x = 2 powi (max (expo x) (- 1022) - 52)"

text \<open>Rounding to the nearest integer, a tie to the even one.\<close>

definition rne :: "real \<Rightarrow> int" where
  "rne x = (let f = \<lfloor>x\<rfloor>; d = x - of_int f
            in if d < 1 / 2 then f else if 1 / 2 < d then f + 1
               else if even f then f else f + 1)"

text \<open>The double nearest to a magnitude, and to a number of either sign.\<close>

definition fl_abs :: "real \<Rightarrow> real" where
  "fl_abs x = of_int (rne (x / ulp x)) * ulp x"

definition fl :: "real \<Rightarrow> real" where
  "fl x = sgn x * fl_abs \<bar>x\<bar>"

section \<open>JavaScript values\<close>

text \<open>
  The fields of a parsed JSON payload and the arguments of the scoring functions are
  JavaScript values. The model covers numbers, \<open>NaN\<close>, \<open>undefined\<close> (an absent
  field), \<open>null\<close> and booleans; strings, objects and arrays in a numeric position are
  not covered.
\<close>

datatype jsval = Num real | NaN | Undefined | Null | Bool bool

text \<open>\<open>typeof v === 'number'\<close>: true of every number, \<open>NaN\<close> included.\<close>

fun typeof_number :: "jsval \<Rightarrow> bool" where
  "typeof_number (Num x) = True"
| "typeof_number NaN = True"
| "typeof_number v = False"

text \<open>The abstract operation ToNumber; \<open>None\<close> stands for \<open>NaN\<close>.\<close>

fun ToNumber :: "jsval \<Rightarrow> real option" where
  "ToNumber (Num x) = Some x"
| "ToNumber NaN = None"
| "ToNumber Undefined = None"
| "ToNumber Null = Some 0"
| "ToNumber (Bool b) = Some (if b then 1 else 0)"

text \<open>Relational operators on non-strings: any comparison with \<open>NaN\<close> is false.\<close>

definition js_lt :: "jsval \<Rightarrow> jsval \<Rightarrow> bool" where
  "js_lt a b = (case (ToNumber a, ToNumber b) of (Some x, Some y) \<Rightarrow> x < y | _ \<Rightarrow> False)"

definition js_gt :: "jsval \<Rightarrow> jsval \<Rightarrow> bool" where
  "js_gt a b = js_lt b a"

definition js_ge :: "jsval \<Rightarrow> jsval \<Rightarrow> bool" where
  "js_ge a b = (case (ToNumber a, ToNumber b) of (Some x, Some y) \<Rightarrow> y \<le> x | _ \<Rightarrow> False)"

text \<open>
  Arithmetic on non-strings: both operands go through ToNumber, \<open>NaN\<close> propagates, and
  the exact result is rounded to a double.
\<close>

definition arith2 :: "(real \<Rightarrow> real \<Rightarrow> real) \<Rightarrow> jsval \<Rightarrow> jsval \<Rightarrow> jsval" where
  "arith2 f a b =
     (case (ToNumber a, ToNumber b) of (Some x, Some y) \<Rightarrow> Num (fl (f x y)) | _ \<Rightarrow> NaN)"

text \<open>Selection of one of two numbers: nothing is rounded.\<close>

definition select2 :: "(real \<Rightarrow> real \<Rightarrow> real) \<Rightarrow> jsval \<Rightarrow> jsval \<Rightarrow> jsval" where
  "select2 f a b =
     (case (ToNumber a, ToNumber b) of (Some x, Some y) \<Rightarrow> Num (f x y) | _ \<Rightarrow> NaN)"

definition js_add :: "jsval \<Rightarrow> jsval \<Rightarrow> jsval" where
  "js_add = arith2 (+)"

definition js_sub :: "jsval \<Rightarrow> jsval \<Rightarrow> jsval" where
  "js_sub = arith2 (-)"

definition js_mul :: "jsval \<Rightarrow> jsval \<Rightarrow> jsval" where
  "js_mul = arith2 (*)"

text \<open>Division; every divisor in the modelled code is a non-zero number.\<close>

definition js_div :: "jsval \<Rightarrow> jsval \<Rightarrow> jsval" where
  "js_div = arith2 (/)"

definition Math_abs :: "jsval \<Rightarrow> jsval" where
  "Math_abs a = (case ToNumber a of Some x \<Rightarrow> Num \<bar>x\<bar> | None \<Rightarrow> NaN)"

definition Math_max :: "jsval \<Rightarrow> jsval \<Rightarrow> jsval" where
  "Math_max = select2 max"

definition Math_min :: "jsval \<Rightarrow> jsval \<Rightarrow> jsval" where
  "Math_min = select2 min"

text \<open>\<open>Math.round\<close> rounds to the nearest integer, a tie towards plus infinity.\<close>

definition Math_round :: "jsval \<Rightarrow> jsval" where
  "Math_round a = (case ToNumber a of Some x \<Rightarrow> Num (of_int \<lfloor>x + 1 / 2\<rfloor>) | None \<Rightarrow> NaN)"

text \<open>Truthiness, and \<open>a || b\<close>.\<close>

fun falsy :: "jsval \<Rightarrow> bool" where
  "falsy (Num x) = (x = 0)"
| "falsy NaN = True"
| "falsy Undefined = True"
| "falsy Null = True"
| "falsy (Bool b) = (\<not> b)"

definition js_or :: "jsval \<Rightarrow> jsval \<Rightarrow> jsval" where
  "js_or a b = (if falsy a then b else a)"

text \<open>A thrown \<open>Error\<close>; handlers only read its message.\<close>

datatype js_error = Error (message: string)

section \<open>Constants (config/constants)\<close>

text \<open>A decimal literal denotes the double nearest to it.\<close>

definition SINR_WEIGHT :: real where "SINR_WEIGHT = fl (5 / 10)"
definition CQI_WEIGHT :: real where "CQI_WEIGHT = fl (3 / 10)"
definition RSRQ_WEIGHT :: real where "RSRQ_WEIGHT = fl (2 / 10)"
definition MIN_SCORE :: real where "MIN_SCORE = 0"
definition MAX_SCORE :: real where "MAX_SCORE = 100"
definition DEFAULT_RADIUS_M :: real where "DEFAULT_RADIUS_M = 5000"
definition MAX_RADIUS_M :: real where "MAX_RADIUS_M = 50000"

section \<open>Quality score (Utils/qualityScore.js)\<close>

definition calculateQualityScore :: "jsval \<Rightarrow> jsval \<Rightarrow> jsval \<Rightarrow> js_error + jsval" where
  "calculateQualityScore rsrq sinr cqi =
     (if \<not> typeof_number rsrq \<or> \<not> typeof_number sinr \<or> \<not> typeof_number cqi
      then Inl (Error ''Invalid radio metrics - must be numbers'')
      else if js_lt rsrq (Num (- 20)) \<or> js_gt rsrq (Num (- 3))
      then Inl (Error ''RSRQ out of range: -20 to -3'')
      else if js_lt sinr (Num (- 10)) \<or> js_gt sinr (Num 30)
      then Inl (Error ''SINR out of range: -10 to 30'')
      else if js_lt cqi (Num 0) \<or> js_gt cqi (Num 15)
      then Inl (Error ''CQI out of range: 0 to 15'')
      else
        let sinrScore = js_mul sinr (Num SINR_WEIGHT);
            cqiScore = js_mul (js_mul (js_div cqi (Num 15)) (Num 100)) (Num CQI_WEIGHT);
            rsrqScore = js_mul (Math_abs rsrq) (Num RSRQ_WEIGHT);
            score = js_sub (js_add sinrScore cqiScore) rsrqScore;
            score' = Math_max (Num MIN_SCORE) (Math_min (Num MAX_SCORE) score)
        in Inr (Math_round score'))"

text \<open>The radio-metric domain of the documentation: all three are numbers in range.\<close>

definition in_range :: "real \<Rightarrow> real \<Rightarrow> real \<Rightarrow> bool" where
  "in_range rsrq sinr cqi \<longleftrightarrow>
     - 20 \<le> rsrq \<and> rsrq \<le> - 3 \<and> - 10 \<le> sinr \<and> sinr \<le> 30 \<and> 0 \<le> cqi \<and> cqi \<le> 15"

text \<open>
  The weighted score before clamping and rounding, with every product, quotient, sum and
  difference rounded to a double.
\<close>

definition raw_score :: "real \<Rightarrow> real \<Rightarrow> real \<Rightarrow> real" where
  "raw_score rsrq sinr cqi =
     fl (fl (fl (sinr * fl (5 / 10)) + fl (fl (fl (cqi / 15) * 100) * fl (3 / 10)))
         - fl (\<bar>rsrq\<bar> * fl (2 / 10)))"


text \<open>Comparison of two results: both are returned finite numbers, the first at most the second.\<close>

fun result_le :: "js_error + jsval \<Rightarrow> js_error + jsval \<Rightarrow> bool" where
  "result_le (Inr (Num a)) (Inr (Num b)) = (a \<le> b)"
| "result_le x y = False"

definition throws :: "js_error + 'a \<Rightarrow> bool" where
  "throws r = (case r of Inl e \<Rightarrow> True | Inr v \<Rightarrow> False)"

section \<open>Rendering of numbers in template literals\<close>

text \<open>
  \<open>`${n}`\<close> for an integer-valued number \<open>n\<close>: its decimal digits, with a minus sign
  when negative.
\<close>

definition digit_char :: "nat \<Rightarrow> char" where
  "digit_char d = ''0123456789'' ! d"

function show_nat :: "nat \<Rightarrow> string" where
  "show_nat n = (if n < 10 then [digit_char n] else show_nat (n div 10) @ [digit_char (n mod 10)])"
  by pat_completeness auto
termination
  by (relation "measure id") auto

definition show_int :: "int \<Rightarrow> string" where
  "show_int i = (if i < 0 then CHR ''-'' # show_nat (nat (- i)) else show_nat (nat i))"

text \<open>\<open>parts.join(sep)\<close>.\<close>

fun join :: "string \<Rightarrow> string list \<Rightarrow> string" where
  "join sep [] = []"
| "join sep [x] = x"
| "join sep (x # y # ys) = x @ sep @ join sep (y # ys)"

text \<open>
  \<open>parseFloat(v.toFixed(2))\<close> for a number \<open>v\<close>: \<open>toFixed\<close> rounds the magnitude of the
  double to two decimals, a tie away from zero, and \<open>parseFloat\<close> returns the double nearest
  to that decimal.
\<close>

definition round2 :: "real \<Rightarrow> real" where
  "round2 x = sgn x * of_int \<lfloor>\<bar>x\<bar> * 100 + 1 / 2\<rfloor> / 100"

definition parseFloat_toFixed2 :: "jsval \<Rightarrow> jsval" where
  "parseFloat_toFixed2 v = (case ToNumber v of Some x \<Rightarrow> Num (fl (round2 x)) | None \<Rightarrow> NaN)"

section \<open>Collaborators: geodesy, record store, authentication\<close>

text \<open>
  The five functions of \<open>utils/geoUtils\<close> are parameters of the model: the properties
  below hold for any implementation of them. The current position is passed as received
  from the client; the stored position and the results are numbers, the bearing an integer.
\<close>

record geodesy =
  calculateDistance :: "jsval \<Rightarrow> jsval \<Rightarrow> real \<Rightarrow> real \<Rightarrow> real"
  calculateBearing :: "jsval \<Rightarrow> jsval \<Rightarrow> real \<Rightarrow> real \<Rightarrow> int"
  getCompassDirection :: "int \<Rightarrow> string"
  formatDistance :: "real \<Rightarrow> string"
  isValidCoordinate :: "jsval \<Rightarrow> jsval \<Rightarrow> bool"

text \<open>A stored measurement as the resolver reads it: \<open>location.coordinates\<close> is
  \<open>[longitude, latitude]\<close>.\<close>

record store_doc =
  doc_coordinates :: "real \<times> real"
  doc_qualityScore :: real

text \<open>The time of a sample: the client's \<open>timestamp\<close> when truthy, else the server clock.\<close>

datatype stamp = ClientStamp jsval | ServerDate int

text \<open>A document handed to \<open>insertMany\<close>.\<close>

record insert_doc =
  d_userId :: string
  d_coordinates :: "jsval \<times> jsval"
  d_qualityScore :: jsval
  d_rsrq :: jsval
  d_sinr :: jsval
  d_cqi :: jsval
  d_downloadSpeed :: jsval
  d_uploadSpeed :: jsval
  d_timestamp :: stamp

text \<open>
  The record store (the \<open>ConnectivityData\<close> model). \<open>findOne_near userId longitude latitude
  maxDistance\<close> answers the query \<open>findOne({userId, location: {$near ...}}).sort({qualityScore: -1})\<close>:
  a rejection, no document, or a document. \<open>insertMany\<close> rejects or returns the number of
  saved documents.
\<close>

record record_store =
  findOne_near :: "string \<Rightarrow> jsval \<Rightarrow> jsval \<Rightarrow> jsval \<Rightarrow> js_error + store_doc option"
  insertMany :: "insert_doc list \<Rightarrow> js_error + nat"

datatype db_call = FindOneNear string jsval jsval jsval | InsertMany "insert_doc list"

text \<open>
  Token verification: \<open>jwt.verify\<close> throws or returns the decoded user id;
  \<open>User.findById\<close> rejects, finds nothing, or finds a user whose \<open>_id.toString()\<close> is
  returned.
\<close>

record auth_env =
  jwt_verify :: "string \<Rightarrow> js_error + string"
  User_findById :: "string \<Rightarrow> js_error + string option"

section \<open>Best-zone resolver, HTTP path (controllers/ConnecitivityController.js)\<close>

datatype 'a zone = NoData | HasData 'a

record best_zone =
  bz_bearing :: int
  bz_bearingDirection :: string
  bz_distance :: real
  bz_distanceFormatted :: string
  bz_qualityScore :: real
  bz_location :: "real \<times> real"
  bz_recommendation :: string

text \<open>The degree sign as the controller's source file holds it (four bytes).\<close>

definition degree_http :: string where
  "degree_http = [CHR 0xC3, CHR 0x82, CHR 0xC2, CHR 0xB0]"

text \<open>The degree sign in UTF-8, as the session handler's source file holds it.\<close>

definition degree_sign :: string where
  "degree_sign = [CHR 0xC2, CHR 0xB0]"

definition findBestZoneHelper ::
  "geodesy \<Rightarrow> record_store \<Rightarrow> string \<Rightarrow> jsval \<Rightarrow> jsval \<Rightarrow> jsval \<Rightarrow> js_error + best_zone zone" where
  "findBestZoneHelper geo db userId latitude longitude radiusArg =
     (let radiusMeters = (if radiusArg = Undefined then Num DEFAULT_RADIUS_M else radiusArg);
          radiusMeters' = Math_min radiusMeters (Num MAX_RADIUS_M)
      in case findOne_near db userId longitude latitude radiusMeters' of
           Inl e \<Rightarrow> Inl e
         | Inr None \<Rightarrow> Inr NoData
         | Inr (Some nearbyData) \<Rightarrow>
             let spotLon = fst (doc_coordinates nearbyData);
                 spotLat = snd (doc_coordinates nearbyData);
                 distance = calculateDistance geo latitude longitude spotLat spotLon;
                 bearing = calculateBearing geo latitude longitude spotLat spotLon;
                 direction = getCompassDirection geo bearing
             in Inr (HasData \<lparr>
                  bz_bearing = bearing,
                  bz_bearingDirection = direction,
                  bz_distance = distance,
                  bz_distanceFormatted = formatDistance geo distance,
                  bz_qualityScore = doc_qualityScore nearbyData,
                  bz_location = (spotLat, spotLon),
                  bz_recommendation =
                    ''Move '' @ direction @ '' ('' @ show_int bearing @ degree_http @ '') for ''
                    @ (if distance > 100 then formatDistance geo distance else ''nearby'')
                    @ '' better signal'' \<rparr>))"

text \<open>The endpoint \<open>exports.findBestZone\<close>: status 400, status 200 with the result, or
  the error passed to \<open>next\<close>.\<close>

datatype 'a http_result = Status400 string | Status200 'a | Next js_error

definition findBestZone ::
  "geodesy \<Rightarrow> record_store \<Rightarrow> string \<Rightarrow> jsval \<Rightarrow> jsval \<Rightarrow> jsval \<Rightarrow> best_zone zone http_result" where
  "findBestZone geo db userId latitude longitude radius =
     (if \<not> isValidCoordinate geo latitude longitude then Status400 ''Invalid coordinates''
      else case findBestZoneHelper geo db userId latitude longitude
                  (js_or radius (Num DEFAULT_RADIUS_M)) of
             Inl e \<Rightarrow> Next e
           | Inr result \<Rightarrow> Status200 result)"

section \<open>Human-readable message (utils/messageGenerator)\<close>

definition generateHumanMessage :: "jsval \<Rightarrow> jsval \<Rightarrow> jsval \<Rightarrow> jsval \<Rightarrow> string" where
  "generateHumanMessage qualityScore rsrq sinr cqi =
     (let quality =
            (if js_ge qualityScore (Num 80) then ''Your connection is excellent''
             else if js_ge qualityScore (Num 60) then ''Your connection is good''
             else if js_ge qualityScore (Num 40) then ''Your connection is fair''
             else if js_ge qualityScore (Num 20) then ''Your connection is poor''
             else ''Your connection is very poor'');
          strength =
            (if js_lt (Math_abs rsrq) (Num 10) then ''Signal strength is strong''
             else if js_lt (Math_abs rsrq) (Num 15) then ''Signal strength is moderate''
             else ''Signal strength is weak'');
          noise =
            (if js_gt sinr (Num 10) then ''Noise levels are low''
             else if js_gt sinr (Num 0) then ''Noise levels are moderate''
             else ''Noise levels are high'');
          channel =
            (if js_ge cqi (Num 12) then ''Channel quality is excellent''
             else if js_ge cqi (Num 8) then ''Channel quality is good''
             else if js_ge cqi (Num 4) then ''Channel quality is fair''
             else ''Channel quality is poor'');
          advice =
            (if js_lt qualityScore (Num 40)
             then (if js_lt sinr (Num 0) then [''Consider moving to reduce interference''] else [])
                  @ (if js_gt (Math_abs rsrq) (Num 12)
                     then [''Try getting closer to a cell tower''] else [])
             else if js_ge qualityScore (Num 80)
             then [''This is a great location for connectivity'']
             else [])
      in join ''. '' ([quality, strength, noise, channel] @ advice) @ ''.'')"

section \<open>Session engine (websocket/measurementHandler.js)\<close>

subsection \<open>Messages\<close>

text \<open>A parsed client message: its \<open>type\<close>, its \<open>token\<close> (absent or a string) and the
  measurement fields.\<close>

record payload =
  p_type :: "string option"
  p_token :: "string option"
  p_rsrq :: jsval
  p_sinr :: jsval
  p_cqi :: jsval
  p_latitude :: jsval
  p_longitude :: jsval
  p_downloadSpeed :: jsval
  p_uploadSpeed :: jsval
  p_timestamp :: jsval

text \<open>What \<open>JSON.parse\<close> makes of the raw frame: a syntax error, \<open>null\<close>, or a value
  with fields.\<close>

datatype incoming = Unparseable js_error | JsonNull | Json payload

text \<open>The best zone of the session path.\<close>

record nearby_zone =
  nz_bearing :: int
  nz_direction :: string
  nz_distance :: int
  nz_distanceFormatted :: string
  nz_qualityScore :: real
  nz_recommendation :: string

record measurement =
  m_rsrq :: jsval
  m_sinr :: jsval
  m_cqi :: jsval
  m_latitude :: jsval
  m_longitude :: jsval
  m_qualityScore :: jsval
  m_downloadSpeed :: jsval
  m_uploadSpeed :: jsval
  m_timestamp :: stamp

record measurement_response =
  r_qualityScore :: jsval
  r_humanMessage :: string
  r_bestZone :: "nearby_zone zone"
  r_rsrq :: jsval
  r_sinr :: jsval
  r_cqi :: jsval
  r_downloadSpeed :: jsval
  r_uploadSpeed :: jsval
  r_timestamp :: int

record session_summary =
  s_sessionId :: string
  s_measurementCount :: nat
  s_sessionDuration :: string
  s_averageQuality :: jsval
  s_averageRsrq :: jsval
  s_averageSinr :: jsval
  s_averageCqi :: jsval
  s_averageDownloadSpeed :: jsval
  s_averageUploadSpeed :: jsval
  s_savedCount :: nat
  s_timestamp :: int

text \<open>Server messages; timestamps are the clock reading in milliseconds.\<close>

datatype server_msg =
    Connection string string int
  | Heartbeat int
  | Authenticated string
  | ErrorMsg string
  | Pong int
  | MeasurementResponse measurement_response
  | SessionSummary session_summary

subsection \<open>State of one connection\<close>

text \<open>
  The socket (\<open>ws_open\<close>: \<open>readyState === OPEN\<close>; the frames sent; the code and reason of
  \<open>ws.close\<close>), the variables of the \<open>handleConnection\<close> closure, the registry
  \<open>activeConnections\<close> and the log of calls made to the record store.
\<close>

record session =
  ws_id :: nat
  ws_open :: bool
  ws_sent :: "server_msg list"
  ws_close :: "(nat \<times> string) option"
  userId :: "string option"
  sessionId :: string
  measurementCount :: nat
  sessionStartTime :: int
  measurements :: "measurement list"
  heartbeatTimer :: bool
  activeConnections :: "string \<rightharpoonup> nat"
  db_calls :: "db_call list"

definition sendMessage :: "session \<Rightarrow> server_msg \<Rightarrow> session" where
  "sendMessage s msg = (if ws_open s then s\<lparr>ws_sent := ws_sent s @ [msg]\<rparr> else s)"

text \<open>\<open>!userId\<close> is false: the user id is a non-empty string.\<close>

definition authenticated :: "session \<Rightarrow> bool" where
  "authenticated s = (case userId s of None \<Rightarrow> False | Some u \<Rightarrow> u \<noteq> [])"

subsection \<open>Authentication\<close>

datatype auth_result = Success string | Failure string

definition authenticateClient :: "auth_env \<Rightarrow> string option \<Rightarrow> auth_result" where
  "authenticateClient auth token =
     (case token of
        None \<Rightarrow> Failure ''Token required''
      | Some t \<Rightarrow>
          (if t = [] then Failure ''Token required''
           else (case jwt_verify auth t of
                   Inl e \<Rightarrow> Failure (message e)
                 | Inr decodedUserId \<Rightarrow>
                     (case User_findById auth decodedUserId of
                        Inl e \<Rightarrow> Failure (message e)
                      | Inr None \<Rightarrow> Failure ''User not found''
                      | Inr (Some uid) \<Rightarrow> Success uid))))"

subsection \<open>Best zone of the session path\<close>

text \<open>\<open>None\<close> is the \<open>null\<close> returned when nothing is found or the lookup fails.\<close>

definition findBestNearbyZone ::
  "geodesy \<Rightarrow> record_store \<Rightarrow> string \<Rightarrow> jsval \<Rightarrow> jsval \<Rightarrow> nearby_zone option" where
  "findBestNearbyZone geo db uid latitude longitude =
     (case findOne_near db uid longitude latitude (Num DEFAULT_RADIUS_M) of
        Inl e \<Rightarrow> None
      | Inr None \<Rightarrow> None
      | Inr (Some nearbyData) \<Rightarrow>
          let spotLon = fst (doc_coordinates nearbyData);
              spotLat = snd (doc_coordinates nearbyData);
              distance = calculateDistance geo latitude longitude spotLat spotLon;
              bearing = calculateBearing geo latitude longitude spotLat spotLon;
              direction = getCompassDirection geo bearing
          in Some \<lparr>
               nz_bearing = bearing,
               nz_direction = direction,
               nz_distance = \<lfloor>distance + 1 / 2\<rfloor>,
               nz_distanceFormatted = formatDistance geo distance,
               nz_qualityScore = doc_qualityScore nearbyData,
               nz_recommendation =
                 ''Move '' @ direction @ '' ('' @ show_int bearing @ degree_sign
                 @ '') for better signal'' \<rparr>)"

text \<open>\<open>bestZone || { hasData: false }\<close>, as the measurement response carries it.\<close>

definition or_no_data :: "'a option \<Rightarrow> 'a zone" where
  "or_no_data bestZone = (case bestZone of None \<Rightarrow> NoData | Some z \<Rightarrow> HasData z)"

subsection \<open>Measurement event\<close>

text \<open>
  \<open>Inl\<close> is an exception leaving \<open>handleMeasurement\<close>; the only one is thrown by
  \<open>calculateQualityScore\<close>, before anything is sent or stored.
\<close>

definition handleMeasurement ::
  "geodesy \<Rightarrow> record_store \<Rightarrow> int \<Rightarrow> string \<Rightarrow> payload \<Rightarrow> session \<Rightarrow> js_error + session" where
  "handleMeasurement geo db now uid data s =
     (let rsrq = p_rsrq data; sinr = p_sinr data; cqi = p_cqi data;
          latitude = p_latitude data; longitude = p_longitude data;
          downloadSpeed = p_downloadSpeed data; uploadSpeed = p_uploadSpeed data;
          timestamp = p_timestamp data
      in if \<not> isValidCoordinate geo latitude longitude
         then Inr (sendMessage s (ErrorMsg ''Invalid coordinates''))
         else if js_lt rsrq (Num (- 20)) \<or> js_gt rsrq (Num (- 3)) \<or>
                 js_lt sinr (Num (- 10)) \<or> js_gt sinr (Num 30) \<or>
                 js_lt cqi (Num 0) \<or> js_gt cqi (Num 15)
         then Inr (sendMessage s (ErrorMsg ''Invalid radio metrics''))
         else case calculateQualityScore rsrq sinr cqi of
                Inl e \<Rightarrow> Inl e
              | Inr qualityScore \<Rightarrow>
                  let humanMessage = generateHumanMessage qualityScore rsrq sinr cqi;
                      s1 = s\<lparr>measurements := measurements s @ [\<lparr>
                             m_rsrq = rsrq, m_sinr = sinr, m_cqi = cqi,
                             m_latitude = latitude, m_longitude = longitude,
                             m_qualityScore = qualityScore,
                             m_downloadSpeed = js_or downloadSpeed (Num 0),
                             m_uploadSpeed = js_or uploadSpeed (Num 0),
                             m_timestamp = (if falsy timestamp then ServerDate now
                                            else ClientStamp timestamp) \<rparr>]\<rparr>;
                      bestZone = findBestNearbyZone geo db uid latitude longitude;
                      s2 = s1\<lparr>db_calls := db_calls s1
                             @ [FindOneNear uid longitude latitude (Num DEFAULT_RADIUS_M)]\<rparr>
                  in Inr (sendMessage s2 (MeasurementResponse \<lparr>
                       r_qualityScore = qualityScore,
                       r_humanMessage = humanMessage,
                       r_bestZone = or_no_data bestZone,
                       r_rsrq = rsrq, r_sinr = sinr, r_cqi = cqi,
                       r_downloadSpeed = js_or downloadSpeed (Num 0),
                       r_uploadSpeed = js_or uploadSpeed (Num 0),
                       r_timestamp = now \<rparr>)))"

subsection \<open>Stop event\<close>

definition to_doc :: "string \<Rightarrow> measurement \<Rightarrow> insert_doc" where
  "to_doc uid m = \<lparr>
     d_userId = uid,
     d_coordinates = (m_longitude m, m_latitude m),
     d_qualityScore = m_qualityScore m,
     d_rsrq = m_rsrq m, d_sinr = m_sinr m, d_cqi = m_cqi m,
     d_downloadSpeed = m_downloadSpeed m, d_uploadSpeed = m_uploadSpeed m,
     d_timestamp = m_timestamp m \<rparr>"

text \<open>\<open>measurements.reduce((sum, m) => sum + m.field, 0) / measurements.length\<close>.\<close>

definition average :: "(measurement \<Rightarrow> jsval) \<Rightarrow> measurement list \<Rightarrow> jsval" where
  "average field ms =
     js_div (foldl (\<lambda>sum m. js_add sum (field m)) (Num 0) ms) (Num (real (length ms)))"

text \<open>\<open>handleStop\<close> catches every exception itself.\<close>

definition handleStop :: "record_store \<Rightarrow> int \<Rightarrow> string \<Rightarrow> session \<Rightarrow> session" where
  "handleStop db now uid s =
     (let ms = measurements s
      in if length ms = 0 then sendMessage s (ErrorMsg ''No measurements recorded'')
         else
           let docs = map (to_doc uid) ms;
               s1 = s\<lparr>db_calls := db_calls s @ [InsertMany docs]\<rparr>
           in case insertMany db docs of
                Inl e \<Rightarrow>
                  sendMessage s1 (ErrorMsg (''Failed to save measurements: '' @ message e))
              | Inr savedCount \<Rightarrow>
                  let sessionDuration =
                        \<lfloor>fl (real_of_int (now - sessionStartTime s) / 1000) + 1 / 2\<rfloor>
                  in sendMessage s1 (SessionSummary \<lparr>
                       s_sessionId = sessionId s,
                       s_measurementCount = length ms,
                       s_sessionDuration = show_int sessionDuration @ ''s'',
                       s_averageQuality = Math_round (average m_qualityScore ms),
                       s_averageRsrq = parseFloat_toFixed2 (average m_rsrq ms),
                       s_averageSinr = parseFloat_toFixed2 (average m_sinr ms),
                       s_averageCqi = parseFloat_toFixed2 (average m_cqi ms),
                       s_averageDownloadSpeed = parseFloat_toFixed2 (average m_downloadSpeed ms),
                       s_averageUploadSpeed = parseFloat_toFixed2 (average m_uploadSpeed ms),
                       s_savedCount = savedCount,
                       s_timestamp = now \<rparr>))"

subsection \<open>The message handler of \<open>handleConnection\<close>\<close>

definition authenticate_first :: string where
  \<open>authenticate_first =
     ''Please authenticate first by sending { type: "authenticate", token: "YOUR_JWT_TOKEN" }''\<close>

definition null_type_error :: string where
  "null_type_error = ''Cannot read properties of null (reading '' @ [CHR 0x27]
     @ ''type'' @ [CHR 0x27] @ '')''"

definition render_type :: "string option \<Rightarrow> string" where
  "render_type t = (case t of None \<Rightarrow> ''undefined'' | Some x \<Rightarrow> x)"

text \<open>The body of the \<open>try\<close> block; \<open>Inl\<close> is an exception reaching its \<open>catch\<close>.\<close>

definition process_message ::
  "geodesy \<Rightarrow> record_store \<Rightarrow> auth_env \<Rightarrow> int \<Rightarrow> incoming \<Rightarrow> session \<Rightarrow> js_error + session" where
  "process_message geo db auth now raw s =
     (case raw of
        Unparseable e \<Rightarrow> Inl e
      | JsonNull \<Rightarrow> Inl (Error null_type_error)
      | Json data \<Rightarrow>
          if \<not> authenticated s then
            (if p_type data = Some ''authenticate'' then
               (case authenticateClient auth (p_token data) of
                  Success uid \<Rightarrow>
                    Inr (sendMessage
                      (s\<lparr>userId := Some uid,
                         activeConnections := (activeConnections s)(uid \<mapsto> ws_id s)\<rparr>)
                      (Authenticated uid))
                | Failure err \<Rightarrow>
                    Inr ((sendMessage s
                           (ErrorMsg (if err = [] then ''Authentication failed'' else err)))
                         \<lparr>ws_open := False, ws_close := Some (4001, ''Authentication failed'')\<rparr>))
             else
               Inr (sendMessage s (ErrorMsg authenticate_first)))
          else
            let uid = the (userId s)
            in if p_type data = Some ''measurement'' then
                 (case handleMeasurement geo db now uid data s of
                    Inl e \<Rightarrow> Inl e
                  | Inr s' \<Rightarrow> Inr (s'\<lparr>measurementCount := measurementCount s' + 1\<rparr>))
               else if p_type data = Some ''stop'' then
                 Inr ((handleStop db now uid s)\<lparr>measurements := []\<rparr>)
               else if p_type data = Some ''ping'' then
                 Inr (sendMessage s (Pong now))
               else
                 Inr (sendMessage s
                   (ErrorMsg (''Unknown message type: '' @ render_type (p_type data)))))"

definition on_message ::
  "geodesy \<Rightarrow> record_store \<Rightarrow> auth_env \<Rightarrow> int \<Rightarrow> incoming \<Rightarrow> session \<Rightarrow> session" where
  "on_message geo db auth now raw s =
     (case process_message geo db auth now raw s of
        Inl e \<Rightarrow> sendMessage s (ErrorMsg (''Failed to process message: '' @ message e))
      | Inr s' \<Rightarrow> s')"

subsection \<open>Connection, heartbeat and close\<close>

definition handleConnection ::
  "nat \<Rightarrow> string \<Rightarrow> int \<Rightarrow> (string \<rightharpoonup> nat) \<Rightarrow> db_call list \<Rightarrow> session" where
  "handleConnection wsid sid now registry calls =
     sendMessage
       \<lparr> ws_id = wsid, ws_open = True, ws_sent = [], ws_close = None,
         userId = None, sessionId = sid, measurementCount = 0, sessionStartTime = now,
         measurements = [], heartbeatTimer = True, activeConnections = registry,
         db_calls = calls \<rparr>
       (Connection ''Connected to NetVision measurement server'' sid now)"

definition on_heartbeat :: "int \<Rightarrow> session \<Rightarrow> session" where
  "on_heartbeat now s =
     (if heartbeatTimer s \<and> ws_open s then sendMessage s (Heartbeat now) else s)"

definition on_close :: "session \<Rightarrow> session" where
  "on_close s =
     s\<lparr> ws_open := False,
        activeConnections :=
          (if authenticated s then (activeConnections s)(the (userId s) := None)
           else activeConnections s),
        heartbeatTimer := False \<rparr>"

section \<open>Notions used to state the properties\<close>

text \<open>A metric that is absent, or a number within the given bounds.\<close>

definition absent_or_within :: "jsval \<Rightarrow> real \<Rightarrow> real \<Rightarrow> bool" where
  "absent_or_within v lo hi =
     (case v of Undefined \<Rightarrow> True | Num x \<Rightarrow> lo \<le> x \<and> x \<le> hi | _ \<Rightarrow> False)"








definition last_is_error :: "session \<Rightarrow> bool" where
  "last_is_error s = (case rev (ws_sent s) of ErrorMsg e # rest \<Rightarrow> True | _ \<Rightarrow> False)"

section \<open>Example collaborators, messages and sessions\<close>

text \<open>Stand-ins for the geodesy module with fixed answers: a match 50 m away and a match
  1500 m away, both due east.\<close>

definition valid_coordinate :: "jsval \<Rightarrow> jsval \<Rightarrow> bool" where
  "valid_coordinate lat lon \<longleftrightarrow>
     js_ge lat (Num (- 90)) \<and> js_ge (Num 90) lat \<and> js_ge lon (Num (- 180)) \<and> js_ge (Num 180) lon"

definition geo_near :: geodesy where
  "geo_near = \<lparr> calculateDistance = (\<lambda>lat lon lat' lon'. 50),
                 calculateBearing = (\<lambda>lat lon lat' lon'. 90),
                 getCompassDirection = (\<lambda>b. ''E''),
                 formatDistance = (\<lambda>d. ''50 m''),
                 isValidCoordinate = valid_coordinate \<rparr>"

definition geo_far :: geodesy where
  "geo_far = \<lparr> calculateDistance = (\<lambda>lat lon lat' lon'. 1500),
                calculateBearing = (\<lambda>lat lon lat' lon'. 90),
                getCompassDirection = (\<lambda>b. ''E''),
                formatDistance = (\<lambda>d. ''1.50 km''),
                isValidCoordinate = valid_coordinate \<rparr>"

definition spot :: store_doc where
  "spot = \<lparr> doc_coordinates = (77, 12), doc_qualityScore = 40 \<rparr>"

text \<open>Record stores: one holding a match, an empty one, an unreachable one.\<close>

definition db_match :: record_store where
  "db_match = \<lparr> findOne_near = (\<lambda>uid lon lat r. Inr (Some spot)),
                 insertMany = (\<lambda>docs. Inr (length docs)) \<rparr>"

definition db_empty :: record_store where
  "db_empty = \<lparr> findOne_near = (\<lambda>uid lon lat r. Inr None),
                 insertMany = (\<lambda>docs. Inr (length docs)) \<rparr>"

definition db_down :: record_store where
  "db_down = \<lparr> findOne_near = (\<lambda>uid lon lat r. Inl (Error ''connection lost'')),
                insertMany = (\<lambda>docs. Inl (Error ''connection lost'')) \<rparr>"

definition auth_example :: auth_env where
  "auth_example = \<lparr> jwt_verify = (\<lambda>t. if t = ''good'' then Inr ''u1''
                                        else Inl (Error ''jwt malformed'')),
                     User_findById = (\<lambda>u. Inr (Some u)) \<rparr>"

definition msg :: "string \<Rightarrow> payload" where
  "msg t = \<lparr> p_type = Some t, p_token = None, p_rsrq = Undefined, p_sinr = Undefined,
             p_cqi = Undefined, p_latitude = Undefined, p_longitude = Undefined,
             p_downloadSpeed = Undefined, p_uploadSpeed = Undefined, p_timestamp = Undefined \<rparr>"

definition sample :: "real \<Rightarrow> real \<Rightarrow> real \<Rightarrow> payload" where
  "sample r s c = (msg ''measurement'')\<lparr> p_rsrq := Num r, p_sinr := Num s, p_cqi := Num c,
                    p_latitude := Num 12, p_longitude := Num 77 \<rparr>"

definition fresh :: session where
  "fresh = handleConnection 1 ''s1'' 0 Map.empty []"

definition signed_in :: session where
  "signed_in = \<lparr> ws_id = 1, ws_open = True, ws_sent = [], ws_close = None,
       userId = Some ''u1'', sessionId = ''s1'', measurementCount = 0, sessionStartTime = 0,
       measurements = [], heartbeatTimer = True, activeConnections = [''u1'' \<mapsto> 1],
       db_calls = [] \<rparr>"

text \<open>The two samples that the handler stores for \<open>sample (- 10) 10 10\<close> at time 1000 and
  \<open>sample (- 10) 12 10\<close> at time 2000, and the session holding them.\<close>

definition sample_a :: measurement where
  "sample_a = \<lparr> m_rsrq = Num (- 10), m_sinr = Num 10, m_cqi = Num 10,
       m_latitude = Num 12, m_longitude = Num 77, m_qualityScore = Num 23,
       m_downloadSpeed = Num 0, m_uploadSpeed = Num 0, m_timestamp = ServerDate 1000 \<rparr>"

definition sample_b :: measurement where
  "sample_b = \<lparr> m_rsrq = Num (- 10), m_sinr = Num 12, m_cqi = Num 10,
       m_latitude = Num 12, m_longitude = Num 77, m_qualityScore = Num 24,
       m_downloadSpeed = Num 0, m_uploadSpeed = Num 0, m_timestamp = ServerDate 2000 \<rparr>"

definition two_samples :: session where
  "two_samples =
     on_message geo_near db_empty auth_example 2000 (Json (sample (- 10) 12 10))
       (on_message geo_near db_empty auth_example 1000 (Json (sample (- 10) 10 10)) signed_in)"

section \<open>Properties of the rounding to a double\<close>

lemma expo_bounds:
  assumes "x \<noteq> 0"
  shows "2 powi (expo x) \<le> \<bar>x\<bar>" "\<bar>x\<bar> < 2 powi (expo x + 1)"
proof -
  have "2 powi (expo x) \<le> \<bar>x\<bar> \<and> \<bar>x\<bar> < 2 powi (expo x + 1)"
  proof (cases "1 \<le> \<bar>x\<bar>")
    case True
    define n where "n = \<lfloor>\<bar>x\<bar>\<rfloor>"
    define k where "k = bitlen n"
    have n: "0 < n" using True by (simp add: n_def)
    have k: "1 \<le> k" using n by (simp add: k_def bitlen_alt_def)
    have b: "2 ^ nat (k - 1) \<le> n" "n < 2 ^ nat k"
      using bitlen_bounds [OF n] by (simp_all add: k_def)
    have e: "expo x = k - 1" using True by (simp add: expo_def k_def n_def)
    have "(2::real) ^ nat (k - 1) \<le> of_int n"
      using b(1) by (metis of_int_le_iff of_int_numeral of_int_power)
    also have "\<dots> \<le> \<bar>x\<bar>" by (simp add: n_def)
    finally have lo: "2 powi (k - 1) \<le> \<bar>x\<bar>"
      using k by (simp add: power_int_nonneg_exp)
    have "n + 1 \<le> 2 ^ nat k" using b(2) by simp
    then have "of_int (n + 1) \<le> (2::real) ^ nat k"
      by (metis of_int_le_iff of_int_numeral of_int_power)
    moreover have "\<bar>x\<bar> < of_int (n + 1)" unfolding n_def by linarith
    ultimately have hi: "\<bar>x\<bar> < 2 powi k"
      using k by (simp add: power_int_nonneg_exp)
    from lo hi e show ?thesis by simp
  next
    case False
    define y where "y = 1 / \<bar>x\<bar>"
    define n where "n = \<lceil>y\<rceil>"
    define k where "k = bitlen (n - 1)"
    have ax: "0 < \<bar>x\<bar>" "\<bar>x\<bar> < 1" using False assms by simp_all
    then have y: "1 < y" by (simp add: y_def)
    then have n: "0 < n - 1" unfolding n_def by linarith
    have k: "1 \<le> k" using n by (simp add: k_def bitlen_alt_def)
    have b: "2 ^ nat (k - 1) \<le> n - 1" "n - 1 < 2 ^ nat k"
      using bitlen_bounds [OF n] by (simp_all add: k_def)
    have e: "expo x = - k" using False by (simp add: expo_def k_def n_def y_def)
    have "n \<le> 2 ^ nat k" using b(2) by simp
    then have "of_int n \<le> (2::real) ^ nat k"
      by (metis of_int_le_iff of_int_numeral of_int_power)
    moreover have "y \<le> of_int n" by (simp add: n_def)
    ultimately have "y \<le> 2 ^ nat k" by linarith
    then have "1 / 2 ^ nat k \<le> 1 / y"
      using y by (intro divide_left_mono) simp_all
    then have lo: "2 powi (- k) \<le> \<bar>x\<bar>"
      using k ax by (simp add: power_int_minus_divide power_int_nonneg_exp y_def)
    have "(2::real) ^ nat (k - 1) \<le> of_int (n - 1)"
      using b(1) by (metis of_int_le_iff of_int_numeral of_int_power)
    moreover have "of_int (n - 1) < y" unfolding n_def by linarith
    ultimately have "2 ^ nat (k - 1) < y" by linarith
    then have "1 / y < 1 / 2 ^ nat (k - 1)"
      using y by (intro divide_strict_left_mono) simp_all
    moreover have "(2::real) powi (- k + 1) = 1 / 2 ^ nat (k - 1)"
    proof -
      have "(2::real) powi (- k + 1) = 2 powi (- (k - 1))" by simp
      also have "\<dots> = 1 / 2 powi (k - 1)" by (rule power_int_minus_divide)
      also have "\<dots> = 1 / 2 ^ nat (k - 1)" using k by (simp add: power_int_nonneg_exp)
      finally show ?thesis .
    qed
    ultimately have hi: "\<bar>x\<bar> < 2 powi (- k + 1)"
      using ax by (simp add: y_def)
    from lo hi e show ?thesis by simp
  qed
  then show "2 powi (expo x) \<le> \<bar>x\<bar>" "\<bar>x\<bar> < 2 powi (expo x + 1)" by simp_all
qed

lemma pow2_mono: "a \<le> b \<Longrightarrow> (2::real) powi a \<le> 2 powi b"
  by (rule power_int_increasing) simp_all

lemma pow2_less_D: "(2::real) powi a < 2 powi b \<Longrightarrow> a < b"
  using pow2_mono [of b a] by (cases "a < b") simp_all

lemma expo_unique:
  assumes "2 powi e \<le> \<bar>x\<bar>" "\<bar>x\<bar> < 2 powi (e + 1)"
  shows "expo x = e"
proof -
  have "0 < \<bar>x\<bar>" using assms(1) zero_less_power_int [of "2::real" e] by linarith
  then have nz: "x \<noteq> 0" by simp
  note b = expo_bounds [OF nz]
  have "(2::real) powi e < 2 powi (expo x + 1)" using assms(1) b(2) by linarith
  then have 1: "e < expo x + 1" by (rule pow2_less_D)
  have "(2::real) powi (expo x) < 2 powi (e + 1)" using assms(2) b(1) by linarith
  then have 2: "expo x < e + 1" by (rule pow2_less_D)
  from 1 2 show ?thesis by simp
qed

lemma rne_of_int [simp]: "rne (of_int n) = n"
  by (simp add: rne_def)

lemma rne_0 [simp]: "rne 0 = 0"
  using rne_of_int [of 0] by simp

lemma rne_numeral [simp]: "rne (numeral n) = numeral n"
  using rne_of_int [of "numeral n"] by simp

lemma rne_mono:
  assumes "x \<le> y"
  shows "rne x \<le> rne y"
proof -
  have f: "\<lfloor>x\<rfloor> \<le> \<lfloor>y\<rfloor>" using assms by (rule floor_mono)
  have bx: "\<lfloor>x\<rfloor> \<le> rne x" "rne x \<le> \<lfloor>x\<rfloor> + 1"
    by (simp_all add: rne_def Let_def)
  have by': "\<lfloor>y\<rfloor> \<le> rne y" "rne y \<le> \<lfloor>y\<rfloor> + 1"
    by (simp_all add: rne_def Let_def)
  show ?thesis
  proof (cases "\<lfloor>x\<rfloor> < \<lfloor>y\<rfloor>")
    case True
    with bx by' show ?thesis by linarith
  next
    case False
    with f have eq: "\<lfloor>x\<rfloor> = \<lfloor>y\<rfloor>" by simp
    then have "x - of_int \<lfloor>x\<rfloor> \<le> y - of_int \<lfloor>y\<rfloor>" using assms by simp
    then show ?thesis
      by (auto simp add: rne_def Let_def eq)
  qed
qed

lemma rne_unique:
  assumes "\<bar>x - of_int n\<bar> < 1 / 2"
  shows "rne x = n"
proof (cases "of_int n \<le> x")
  case True
  then have "\<lfloor>x\<rfloor> = n" using assms by (intro floor_unique) linarith+
  then show ?thesis using assms True by (simp add: rne_def Let_def)
next
  case False
  with assms have a: "of_int n - 1 / 2 < x" "x < of_int n" by linarith+
  then have f: "\<lfloor>x\<rfloor> = n - 1" by (simp add: floor_eq_iff)
  have "1 / 2 < x - of_int (n - 1)" using a by simp
  then show ?thesis using f by (simp add: rne_def Let_def)
qed

lemma ulp_pos [simp]: "0 < ulp x"
  by (simp add: ulp_def)

lemma ulp_nonneg [simp]: "0 \<le> ulp x"
  by (simp add: ulp_def)

lemma fl_0 [simp]: "fl 0 = 0"
  by (simp add: fl_def)

lemma expo_abs [simp]: "expo \<bar>x\<bar> = expo x"
  by (simp add: expo_def)

lemma ulp_abs [simp]: "ulp \<bar>x\<bar> = ulp x"
  by (simp add: ulp_def)

lemma fl_value:
  assumes "2 powi e \<le> \<bar>x\<bar>" "\<bar>x\<bar> < 2 powi (e + 1)" "- 1022 \<le> e"
    and "\<bar>\<bar>x\<bar> / 2 powi (e - 52) - of_int n\<bar> < 1 / 2"
  shows "fl x = sgn x * (of_int n * 2 powi (e - 52))"
proof -
  have "expo x = e" using assms(1,2) by (rule expo_unique)
  then have u: "ulp x = 2 powi (e - 52)" using assms(3) by (simp add: ulp_def)
  show ?thesis
    by (simp add: fl_def fl_abs_def u rne_unique [OF assms(4)])
qed

lemma rne_tie: "rne (of_int f + 1 / 2) = (if even f then f else f + 1)"
proof -
  have "\<lfloor>of_int f + 1 / 2 :: real\<rfloor> = f" by (simp add: floor_eq_iff)
  then show ?thesis by (simp add: rne_def Let_def)
qed

lemma fl_value_tie:
  assumes "2 powi e \<le> \<bar>x\<bar>" "\<bar>x\<bar> < 2 powi (e + 1)" "- 1022 \<le> e"
    and "\<bar>x\<bar> / 2 powi (e - 52) = of_int f + 1 / 2"
  shows "fl x = sgn x * (of_int (if even f then f else f + 1) * 2 powi (e - 52))"
proof -
  have "expo x = e" using assms(1,2) by (rule expo_unique)
  then have u: "ulp x = 2 powi (e - 52)" using assms(3) by (simp add: ulp_def)
  show ?thesis
    unfolding fl_def fl_abs_def ulp_abs u assms(4) rne_tie by (rule refl)
qed

lemma fl_fl_abs: "fl x = sgn x * fl_abs \<bar>x\<bar>"
  by (rule fl_def)

lemma fl_abs_nonneg: "0 \<le> x \<Longrightarrow> 0 \<le> fl_abs x"
proof -
  assume "0 \<le> x"
  then have "rne 0 \<le> rne (x / ulp x)" by (intro rne_mono divide_nonneg_pos) simp_all
  then have "0 \<le> rne (x / ulp x)" by simp
  then show ?thesis by (simp add: fl_abs_def)
qed

lemma fl_abs_upper:
  assumes "0 < x"
  shows "fl_abs x \<le> 2 powi (max (expo x) (- 1022) + 1)"
proof -
  let ?E = "max (expo x) (- 1022)"
  have nz: "x \<noteq> 0" using assms by simp
  have "x < 2 powi (expo x + 1)" using expo_bounds(2) [OF nz] assms by simp
  also have "\<dots> \<le> 2 powi (?E + 1)" by (rule pow2_mono) simp
  finally have "x / ulp x \<le> 2 powi (?E + 1) / ulp x"
    by (intro divide_right_mono) simp_all
  also have "2 powi (?E + 1) / ulp x = 2 powi ((?E + 1) - (?E - 52))"
    unfolding ulp_def by (subst power_int_diff) simp_all
  also have "\<dots> = of_int (2 ^ 53)" by simp
  finally have "rne (x / ulp x) \<le> rne (of_int (2 ^ 53))" by (rule rne_mono)
  then have "of_int (rne (x / ulp x)) \<le> (2::real) powi 53" by simp
  then have "fl_abs x \<le> 2 powi 53 * ulp x"
    unfolding fl_abs_def by (intro mult_right_mono) simp_all
  also have "\<dots> = 2 powi (53 + (?E - 52))"
    unfolding ulp_def by (subst power_int_add) simp_all
  also have "\<dots> = 2 powi (?E + 1)" by (simp add: algebra_simps)
  finally show ?thesis .
qed

lemma fl_abs_lower:
  assumes "0 < x" "- 1022 \<le> expo x"
  shows "2 powi (expo x) \<le> fl_abs x"
proof -
  have nz: "x \<noteq> 0" using assms by simp
  have u: "ulp x = 2 powi (expo x - 52)" using assms(2) by (simp add: ulp_def max_def)
  have "2 powi (expo x) \<le> x" using expo_bounds(1) [OF nz] assms by simp
  then have "2 powi (expo x) / ulp x \<le> x / ulp x"
    by (intro divide_right_mono) simp_all
  moreover have "2 powi (expo x) / ulp x = 2 powi (expo x - (expo x - 52))"
    unfolding u by (subst power_int_diff) simp_all
  moreover have "(2::real) powi (expo x - (expo x - 52)) = of_int (2 ^ 52)" by simp
  ultimately have "rne (of_int (2 ^ 52)) \<le> rne (x / ulp x)"
    by (intro rne_mono) simp
  then have "(2::real) powi 52 \<le> of_int (rne (x / ulp x))" by simp
  then have "2 powi 52 * ulp x \<le> fl_abs x"
    unfolding fl_abs_def by (intro mult_right_mono) simp_all
  moreover have "2 powi 52 * ulp x = 2 powi (52 + (expo x - 52))"
    unfolding u by (subst power_int_add) simp_all
  ultimately show ?thesis by simp
qed

lemma expo_mono:
  assumes "0 < x" "x \<le> y"
  shows "expo x \<le> expo y"
proof -
  have "x \<noteq> 0" "y \<noteq> 0" using assms by simp_all
  from expo_bounds(1) [OF this(1)] expo_bounds(2) [OF this(2)]
  have "(2::real) powi (expo x) < 2 powi (expo y + 1)" using assms by simp
  then have "expo x < expo y + 1" by (rule pow2_less_D)
  then show ?thesis by simp
qed

lemma fl_abs_mono:
  assumes "0 \<le> x" "x \<le> y"
  shows "fl_abs x \<le> fl_abs y"
proof (cases "x = 0")
  case True
  then show ?thesis using fl_abs_nonneg [of y] assms by (simp add: fl_abs_def)
next
  case False
  then have px: "0 < x" and py: "0 < y" using assms by simp_all
  define Ex where "Ex = max (expo x) (- 1022)"
  define Ey where "Ey = max (expo y) (- 1022)"
  have le: "Ex \<le> Ey" using expo_mono [OF px assms(2)] by (simp add: Ex_def Ey_def)
  show ?thesis
  proof (cases "Ex = Ey")
    case True
    then have u: "ulp x = ulp y" by (simp add: ulp_def Ex_def Ey_def)
    have "x / ulp y \<le> y / ulp y" using assms(2) by (intro divide_right_mono) simp_all
    then have "rne (x / ulp y) \<le> rne (y / ulp y)" by (rule rne_mono)
    then show ?thesis
      unfolding fl_abs_def u by (intro mult_right_mono) simp_all
  next
    case False
    with le have lt: "Ex < Ey" by simp
    have "- 1022 \<le> Ex" by (simp add: Ex_def)
    with lt have ey: "- 1022 \<le> expo y" "Ey = expo y"
      by (simp_all add: Ey_def max_def split: if_splits)
    have "fl_abs x \<le> 2 powi (Ex + 1)" unfolding Ex_def by (rule fl_abs_upper [OF px])
    also have "\<dots> \<le> 2 powi (expo y)" using lt ey(2) by (intro pow2_mono) simp
    also have "\<dots> \<le> fl_abs y" by (rule fl_abs_lower [OF py ey(1)])
    finally show ?thesis .
  qed
qed

lemma fl_mono:
  assumes "x \<le> y"
  shows "fl x \<le> fl y"
proof -
  consider "0 \<le> x" | "x < 0" "0 \<le> y" | "y < 0" by linarith
  then show ?thesis
  proof cases
    case 1
    then have "fl_abs \<bar>x\<bar> \<le> fl_abs \<bar>y\<bar>" using assms by (intro fl_abs_mono) simp_all
    moreover have "sgn x * fl_abs \<bar>x\<bar> = (if x = 0 then 0 else fl_abs \<bar>x\<bar>)"
      using 1 by (simp add: sgn_if)
    moreover have "sgn y * fl_abs \<bar>y\<bar> = (if y = 0 then 0 else fl_abs \<bar>y\<bar>)"
      using 1 assms by (simp add: sgn_if)
    moreover have "0 \<le> fl_abs \<bar>y\<bar>" by (rule fl_abs_nonneg) simp
    moreover have "x = 0 \<Longrightarrow> fl_abs \<bar>x\<bar> = 0" by (simp add: fl_abs_def)
    ultimately show ?thesis
      using 1 assms by (auto simp add: fl_fl_abs)
  next
    case 2
    have "fl x \<le> 0" using 2 fl_abs_nonneg [of "\<bar>x\<bar>"] by (simp add: fl_fl_abs sgn_if)
    moreover have "0 \<le> fl y" using 2 fl_abs_nonneg [of "\<bar>y\<bar>"] by (simp add: fl_fl_abs sgn_if)
    ultimately show ?thesis by simp
  next
    case 3
    then have "fl_abs \<bar>y\<bar> \<le> fl_abs \<bar>x\<bar>" using assms by (intro fl_abs_mono) simp_all
    then show ?thesis using 3 assms by (simp add: fl_fl_abs sgn_if)
  qed
qed

lemma fl_nonneg: "0 \<le> x \<Longrightarrow> 0 \<le> fl x"
  using fl_mono [of 0 x] by simp

lemma fl_of_int:
  assumes "\<bar>k\<bar> < 2 ^ 53"
  shows "fl (of_int k) = of_int k"
proof (cases "k = 0")
  case True
  then show ?thesis by simp
next
  case False
  define x :: real where "x = of_int k"
  define e where "e = expo x"
  have nz: "x \<noteq> 0" using False by (simp add: x_def)
  have b: "2 powi e \<le> \<bar>x\<bar>" "\<bar>x\<bar> < 2 powi (e + 1)"
    unfolding e_def by (rule expo_bounds [OF nz])+
  have "1 \<le> \<bar>k\<bar>" using False by simp
  then have one: "1 \<le> \<bar>x\<bar>" unfolding x_def by (metis of_int_1_le_iff of_int_abs)
  then have "(2::real) powi 0 < 2 powi (e + 1)" using b(2) by simp
  then have e0: "0 \<le> e" using pow2_less_D [of 0 "e + 1"] by simp
  have "\<bar>x\<bar> < 2 ^ 53"
    using assms unfolding x_def by (metis of_int_abs of_int_less_iff of_int_numeral of_int_power)
  then have "(2::real) powi e < 2 powi 53" using b(1) by simp
  then have e52: "e \<le> 52" using pow2_less_D [of e 53] by simp
  have u: "ulp x = 2 powi (e - 52)" using e0 by (simp add: ulp_def e_def max_def)
  have inv: "1 / (2::real) powi (e - 52) = 2 ^ nat (52 - e)"
  proof -
    have "1 / (2::real) powi (e - 52) = 2 powi (- (e - 52))"
      by (rule power_int_minus_divide [symmetric])
    also have "\<dots> = 2 ^ nat (52 - e)" using e52 by (simp add: power_int_nonneg_exp)
    finally show ?thesis .
  qed
  have "\<bar>x\<bar> / ulp x = \<bar>x\<bar> * (1 / 2 powi (e - 52))" by (simp add: u)
  also have "\<dots> = of_int (\<bar>k\<bar> * 2 ^ nat (52 - e))" by (simp add: inv x_def)
  finally have r: "rne (\<bar>x\<bar> / ulp x) = \<bar>k\<bar> * 2 ^ nat (52 - e)" by (simp only: rne_of_int)
  have "fl_abs \<bar>x\<bar> = of_int (rne (\<bar>x\<bar> / ulp x)) * ulp x"
    by (simp only: fl_abs_def ulp_abs)
  also have "\<dots> = of_int (\<bar>k\<bar> * 2 ^ nat (52 - e)) * 2 powi (e - 52)"
    by (subst r) (simp only: u)
  also have "\<dots> = \<bar>x\<bar> * ((1 / 2 powi (e - 52)) * 2 powi (e - 52))"
    by (simp add: inv x_def)
  also have "\<dots> = \<bar>x\<bar>" by simp
  finally have "fl x = sgn x * \<bar>x\<bar>" by (simp add: fl_def)
  then show ?thesis by (simp add: x_def sgn_mult_abs)
qed

lemma fl_numeral [simp]:
  "numeral n < (2 ^ 53 :: int) \<Longrightarrow> fl (numeral n) = numeral n"
  using fl_of_int [of "numeral n"] by simp

lemma fl_neg_numeral [simp]:
  "numeral n < (2 ^ 53 :: int) \<Longrightarrow> fl (- numeral n) = - numeral n"
  using fl_of_int [of "- numeral n"] by simp

lemma fl_1 [simp]: "fl 1 = 1"
  using fl_of_int [of 1] by simp

section \<open>Properties of the quality score\<close>

lemma calculateQualityScore_in_range:
  assumes "in_range r s c"
  shows "calculateQualityScore (Num r) (Num s) (Num c) =
           Inr (Num (of_int (round (max 0 (min 100 (raw_score r s c))))))"
  using assms
  by (simp add: calculateQualityScore_def in_range_def raw_score_def js_lt_def js_gt_def
      js_mul_def js_div_def js_add_def js_sub_def arith2_def select2_def Math_abs_def
      Math_max_def Math_min_def Math_round_def round_def SINR_WEIGHT_def CQI_WEIGHT_def
      RSRQ_WEIGHT_def MIN_SCORE_def MAX_SCORE_def Let_def)


lemma raw_score_mono:
  assumes "r \<le> r'" "r' \<le> 0" "s \<le> s'" "c \<le> c'"
  shows "raw_score r s c \<le> raw_score r' s' c'"
proof -
  have w: "0 \<le> fl (5 / 10)" "0 \<le> fl (3 / 10)" "0 \<le> fl (2 / 10)"
    by (rule fl_nonneg, simp)+
  have a: "fl (s * fl (5 / 10)) \<le> fl (s' * fl (5 / 10))"
    using assms(3) w(1) by (intro fl_mono) (rule mult_right_mono)
  have "fl (c / 15) \<le> fl (c' / 15)"
    using assms(4) by (intro fl_mono divide_right_mono) simp_all
  then have "fl (fl (c / 15) * 100) \<le> fl (fl (c' / 15) * 100)"
    by (intro fl_mono) simp
  then have b: "fl (fl (fl (c / 15) * 100) * fl (3 / 10)) \<le> fl (fl (fl (c' / 15) * 100) * fl (3 / 10))"
    using w(2) by (intro fl_mono) (rule mult_right_mono)
  have "\<bar>r'\<bar> \<le> \<bar>r\<bar>" using assms(1,2) by simp
  then have p: "fl (\<bar>r'\<bar> * fl (2 / 10)) \<le> fl (\<bar>r\<bar> * fl (2 / 10))"
    using w(3) by (intro fl_mono) (rule mult_right_mono)
  have "fl (fl (s * fl (5 / 10)) + fl (fl (fl (c / 15) * 100) * fl (3 / 10)))
          \<le> fl (fl (s' * fl (5 / 10)) + fl (fl (fl (c' / 15) * 100) * fl (3 / 10)))"
    using a b by (intro fl_mono) (rule add_mono)
  with p show ?thesis
    unfolding raw_score_def by (intro fl_mono) (rule diff_mono)
qed

lemma clamped_round_mono:
  assumes "(x::real) \<le> y"
  shows "round (max 0 (min 100 x)) \<le> round (max 0 (min 100 y))"
  by (rule round_mono) (use assms in auto)




lemma score_mono:
  assumes "in_range r s c" "in_range r' s' c'" "r \<le> r'" "s \<le> s'" "c \<le> c'"
  shows "result_le (calculateQualityScore (Num r) (Num s) (Num c))
           (calculateQualityScore (Num r') (Num s') (Num c'))"
proof -
  have "r' \<le> 0" using assms(2) by (simp add: in_range_def)
  then have "raw_score r s c \<le> raw_score r' s' c'"
    using assms by (intro raw_score_mono)
  then have "round (max 0 (min 100 (raw_score r s c)))
               \<le> round (max 0 (min 100 (raw_score r' s' c')))"
    by (rule clamped_round_mono)
  then show ?thesis
    by (simp add: calculateQualityScore_in_range assms(1,2))
qed

text \<open>
  C4: on the valid domain the score is monotone in each argument with the other two held
  fixed: a larger SINR, a larger CQI, or an RSRQ closer to zero (a smaller \<open>|rsrq|\<close>)
  never gives a smaller score.
\<close>

theorem C4_score_monotone:
  assumes "in_range rsrq sinr cqi"
  shows "(\<forall>sinr'. in_range rsrq sinr' cqi \<and> sinr \<le> sinr' \<longrightarrow>
            result_le (calculateQualityScore (Num rsrq) (Num sinr) (Num cqi))
              (calculateQualityScore (Num rsrq) (Num sinr') (Num cqi)))
       \<and> (\<forall>cqi'. in_range rsrq sinr cqi' \<and> cqi \<le> cqi' \<longrightarrow>
            result_le (calculateQualityScore (Num rsrq) (Num sinr) (Num cqi))
              (calculateQualityScore (Num rsrq) (Num sinr) (Num cqi')))
       \<and> (\<forall>rsrq'. in_range rsrq' sinr cqi \<and> \<bar>rsrq'\<bar> \<le> \<bar>rsrq\<bar> \<longrightarrow>
            result_le (calculateQualityScore (Num rsrq) (Num sinr) (Num cqi))
              (calculateQualityScore (Num rsrq') (Num sinr) (Num cqi)))"
proof (intro conjI allI impI)
  fix sinr' assume "in_range rsrq sinr' cqi \<and> sinr \<le> sinr'"
  then show "result_le (calculateQualityScore (Num rsrq) (Num sinr) (Num cqi))
               (calculateQualityScore (Num rsrq) (Num sinr') (Num cqi))"
    using assms by (intro score_mono) simp_all
next
  fix cqi' assume "in_range rsrq sinr cqi' \<and> cqi \<le> cqi'"
  then show "result_le (calculateQualityScore (Num rsrq) (Num sinr) (Num cqi))
               (calculateQualityScore (Num rsrq) (Num sinr) (Num cqi'))"
    using assms by (intro score_mono) simp_all
next
  fix rsrq' assume h: "in_range rsrq' sinr cqi \<and> \<bar>rsrq'\<bar> \<le> \<bar>rsrq\<bar>"
  then have "rsrq \<le> rsrq'"
    using assms unfolding in_range_def by linarith
  with h show "result_le (calculateQualityScore (Num rsrq) (Num sinr) (Num cqi))
               (calculateQualityScore (Num rsrq') (Num sinr) (Num cqi))"
    using assms by (intro score_mono) simp_all
qed

theorem C4_score_monotone_witness:
  "result_le (calculateQualityScore (Num (- 10)) (Num 5) (Num 10))
     (calculateQualityScore (Num (- 10)) (Num 7) (Num 10))
   \<and> result_le (calculateQualityScore (Num (- 10)) (Num 5) (Num 10))
     (calculateQualityScore (Num (- 10)) (Num 5) (Num 12))
   \<and> result_le (calculateQualityScore (Num (- 10)) (Num 5) (Num 10))
     (calculateQualityScore (Num (- 4)) (Num 5) (Num 10))"
proof -
  have "in_range (- 10) 5 10" "in_range (- 10) 7 10" "in_range (- 10) 5 12" "in_range (- 4) 5 10"
    by (simp_all add: in_range_def)
  then show ?thesis
    using C4_score_monotone [of "- 10" 5 10] by simp
qed

lemma calculateQualityScore_throws_iff:
  assumes "rsrq \<noteq> NaN" "sinr \<noteq> NaN" "cqi \<noteq> NaN"
  shows "throws (calculateQualityScore rsrq sinr cqi) \<longleftrightarrow>
           \<not> (\<exists>r s c. rsrq = Num r \<and> sinr = Num s \<and> cqi = Num c \<and> in_range r s c)"
  using assms
  by (cases rsrq; cases sinr; cases cqi)
    (auto simp add: calculateQualityScore_def throws_def in_range_def js_lt_def js_gt_def Let_def)

text \<open>
  C5: the score function should fail exactly when an input is not a number or is out of
  range. At \<open>rsrq = NaN\<close> the type check and every range comparison pass, nothing is
  thrown and the function returns \<open>NaN\<close>.
\<close>

theorem C5_nan_not_rejected:
  "calculateQualityScore NaN (Num 5) (Num 10) = Inr NaN"
  by (simp add: calculateQualityScore_def js_lt_def js_gt_def js_mul_def js_div_def js_add_def
      js_sub_def arith2_def select2_def Math_abs_def Math_max_def Math_min_def Math_round_def
      Let_def)

theorem C5_nan_not_rejected_witness:
  "\<not> throws (calculateQualityScore NaN (Num 5) (Num 10))"
  using C5_nan_not_rejected by (simp add: throws_def)

section \<open>Properties of the session engine\<close>

lemma sendMessage_open: "ws_open s \<Longrightarrow> sendMessage s m = s\<lparr>ws_sent := ws_sent s @ [m]\<rparr>"
  by (simp add: sendMessage_def)

lemma on_message_before_auth:
  assumes "\<not> authenticated s" "p_type data \<noteq> Some ''authenticate''"
  shows "on_message geo db auth now (Json data) s = sendMessage s (ErrorMsg authenticate_first)"
  using assms by (simp add: on_message_def process_message_def)

lemma on_message_auth_failure:
  assumes "\<not> authenticated s" "p_type data = Some ''authenticate''"
    "authenticateClient auth (p_token data) = Failure err"
  shows "on_message geo db auth now (Json data) s =
           (sendMessage s (ErrorMsg (if err = [] then ''Authentication failed'' else err)))
             \<lparr>ws_open := False, ws_close := Some (4001, ''Authentication failed'')\<rparr>"
  using assms by (simp add: on_message_def process_message_def)

lemma on_message_stop:
  assumes "authenticated s" "userId s = Some uid" "p_type data = Some ''stop''"
  shows "on_message geo db auth now (Json data) s = (handleStop db now uid s)\<lparr>measurements := []\<rparr>"
  using assms by (simp add: on_message_def process_message_def)

lemma on_message_measurement:
  assumes "authenticated s" "userId s = Some uid" "p_type data = Some ''measurement''"
  shows "on_message geo db auth now (Json data) s =
           (case handleMeasurement geo db now uid data s of
              Inl e \<Rightarrow> sendMessage s (ErrorMsg (''Failed to process message: '' @ message e))
            | Inr s' \<Rightarrow> s'\<lparr>measurementCount := measurementCount s' + 1\<rparr>)"
  using assms by (simp add: on_message_def process_message_def split: sum.splits)

text \<open>
  C3: while the session is not authenticated, a message of any type other than
  \<open>authenticate\<close> is answered by an error asking to authenticate first, and nothing else
  changes: the connection stays open and the session unauthenticated. An \<open>authenticate\<close>
  message whose token is rejected is answered by an error, after which the connection is
  closed with code 4001, "Authentication failed".
\<close>

theorem C3_before_authentication:
  assumes "\<not> authenticated s" "ws_open s"
  shows "(p_type data \<noteq> Some ''authenticate'' \<longrightarrow>
            on_message geo db auth now (Json data) s =
              s\<lparr>ws_sent := ws_sent s @ [ErrorMsg authenticate_first]\<rparr>)
       \<and> (p_type data = Some ''authenticate'' \<and>
            authenticateClient auth (p_token data) = Failure err \<longrightarrow>
            on_message geo db auth now (Json data) s =
              s\<lparr>ws_sent := ws_sent s
                    @ [ErrorMsg (if err = [] then ''Authentication failed'' else err)],
                ws_open := False, ws_close := Some (4001, ''Authentication failed'')\<rparr>)"
  using assms
  by (simp add: on_message_before_auth on_message_auth_failure sendMessage_open)

lemma fresh_simps:
  "\<not> authenticated fresh" "ws_open fresh" "userId fresh = None" "ws_close fresh = None"
  "ws_sent fresh = [Connection ''Connected to NetVision measurement server'' ''s1'' 0]"
  by (simp_all add: fresh_def handleConnection_def sendMessage_def authenticated_def)

theorem C3_before_authentication_witness:
  "(let s' = on_message geo_near db_match auth_example 5 (Json (sample (- 10) 10 10)) fresh
    in ws_sent s' = ws_sent fresh @ [ErrorMsg authenticate_first]
       \<and> ws_open s' \<and> ws_close s' = None \<and> userId s' = None \<and> measurements s' = [])
   \<and> (let s' = on_message geo_near db_match auth_example 5
                  (Json ((msg ''authenticate'')\<lparr>p_token := Some ''bad''\<rparr>)) fresh
      in ws_sent s' = ws_sent fresh @ [ErrorMsg ''jwt malformed'']
         \<and> \<not> ws_open s' \<and> ws_close s' = Some (4001, ''Authentication failed'')
         \<and> userId s' = None)"
proof -
  have 1: "on_message geo_near db_match auth_example 5 (Json (sample (- 10) 10 10)) fresh =
             fresh\<lparr>ws_sent := ws_sent fresh @ [ErrorMsg authenticate_first]\<rparr>"
    using C3_before_authentication [where s = fresh and data = "sample (- 10) 10 10"
        and geo = geo_near and db = db_match and auth = auth_example and now = 5]
    by (simp add: fresh_simps sample_def msg_def)
  have 2: "on_message geo_near db_match auth_example 5
             (Json ((msg ''authenticate'')\<lparr>p_token := Some ''bad''\<rparr>)) fresh =
             fresh\<lparr>ws_sent := ws_sent fresh @ [ErrorMsg ''jwt malformed''],
               ws_open := False, ws_close := Some (4001, ''Authentication failed'')\<rparr>"
    using C3_before_authentication [where s = fresh
        and data = "(msg ''authenticate'')\<lparr>p_token := Some ''bad''\<rparr>"
        and err = "''jwt malformed''"
        and geo = geo_near and db = db_match and auth = auth_example and now = 5]
    by (simp add: fresh_simps msg_def authenticateClient_def auth_example_def)
  show ?thesis
    unfolding 1 2 Let_def
    by (simp add: fresh_def handleConnection_def sendMessage_def)
qed

lemma authenticated_userId: "authenticated s \<Longrightarrow> \<exists>uid. userId s = Some uid"
  by (cases "userId s") (simp_all add: authenticated_def)

lemma handleStop_empty:
  assumes "ws_open s" "measurements s = []"
  shows "handleStop db now uid s = s\<lparr>ws_sent := ws_sent s @ [ErrorMsg ''No measurements recorded'']\<rparr>"
  using assms by (simp add: handleStop_def sendMessage_open)

text \<open>
  C6: in an authenticated session whose accumulator is empty, a \<open>stop\<close> message is
  answered by the error "No measurements recorded"; the record store is not called and the
  session is otherwise unchanged (same user, empty accumulator, open connection).
\<close>

theorem C6_stop_without_measurements:
  assumes "authenticated s" "ws_open s" "measurements s = []" "p_type data = Some ''stop''"
  shows "on_message geo db auth now (Json data) s =
           s\<lparr>ws_sent := ws_sent s @ [ErrorMsg ''No measurements recorded'']\<rparr>
         \<and> db_calls (on_message geo db auth now (Json data) s) = db_calls s"
proof -
  obtain uid where uid: "userId s = Some uid"
    using authenticated_userId [OF assms(1)] by blast
  have "on_message geo db auth now (Json data) s =
          (s\<lparr>ws_sent := ws_sent s @ [ErrorMsg ''No measurements recorded'']\<rparr>)\<lparr>measurements := []\<rparr>"
    by (simp add: on_message_stop [OF assms(1) uid assms(4)] handleStop_empty assms)
  also have "\<dots> = s\<lparr>ws_sent := ws_sent s @ [ErrorMsg ''No measurements recorded'']\<rparr>"
    using assms(3) by (cases s) simp
  finally show ?thesis by simp
qed

lemma signed_in_simps:
  "authenticated signed_in" "ws_open signed_in" "measurements signed_in = []"
  "userId signed_in = Some ''u1''" "db_calls signed_in = []" "ws_sent signed_in = []"
  "measurementCount signed_in = 0" "sessionId signed_in = ''s1''"
  "sessionStartTime signed_in = 0"
  by (simp_all add: signed_in_def authenticated_def)

theorem C6_stop_without_measurements_witness:
  "on_message geo_near db_match auth_example 5 (Json (msg ''stop'')) signed_in =
     signed_in\<lparr>ws_sent := [ErrorMsg ''No measurements recorded'']\<rparr>
   \<and> db_calls (on_message geo_near db_match auth_example 5 (Json (msg ''stop'')) signed_in) = []"
  using C6_stop_without_measurements [where s = signed_in and data = "msg ''stop''"
      and geo = geo_near and db = db_match and auth = auth_example and now = 5]
  by (simp add: signed_in_simps msg_def)

lemma undefined_comparisons [simp]:
  "\<not> js_lt Undefined v" "\<not> js_gt Undefined v" "\<not> js_lt v Undefined" "\<not> js_gt v Undefined"
  by (simp_all add: js_lt_def js_gt_def split: option.splits)

lemma absent_or_within_passes:
  assumes "absent_or_within v lo hi"
  shows "\<not> js_lt v (Num lo)" "\<not> js_gt v (Num hi)"
  using assms by (cases v; simp add: absent_or_within_def js_lt_def js_gt_def)+

lemma absent_or_within_typeof:
  assumes "absent_or_within v lo hi"
  shows "typeof_number v \<longleftrightarrow> v \<noteq> Undefined"
  using assms by (cases v) (simp_all add: absent_or_within_def)

text \<open>
  C10: in an authenticated session, a measurement message with a valid coordinate in which
  at least one of \<open>rsrq\<close>, \<open>sinr\<close>, \<open>cqi\<close> is absent (and the others are absent or in
  range) passes the range validation of the handler, since every comparison with
  \<open>undefined\<close> is false. The type check of \<open>calculateQualityScore\<close> then throws, the
  catch-all of the message handler answers "Failed to process message: ...", and nothing is
  appended to the accumulator.
\<close>

theorem C10_absent_metric:
  assumes "authenticated s" "ws_open s" "p_type data = Some ''measurement''"
    and "isValidCoordinate geo (p_latitude data) (p_longitude data)"
    and "absent_or_within (p_rsrq data) (- 20) (- 3)"
    and "absent_or_within (p_sinr data) (- 10) 30"
    and "absent_or_within (p_cqi data) 0 15"
    and "p_rsrq data = Undefined \<or> p_sinr data = Undefined \<or> p_cqi data = Undefined"
  shows "\<not> (js_lt (p_rsrq data) (Num (- 20)) \<or> js_gt (p_rsrq data) (Num (- 3)) \<or>
            js_lt (p_sinr data) (Num (- 10)) \<or> js_gt (p_sinr data) (Num 30) \<or>
            js_lt (p_cqi data) (Num 0) \<or> js_gt (p_cqi data) (Num 15))
       \<and> calculateQualityScore (p_rsrq data) (p_sinr data) (p_cqi data) =
           Inl (Error ''Invalid radio metrics - must be numbers'')
       \<and> on_message geo db auth now (Json data) s =
           s\<lparr>ws_sent := ws_sent s @
               [ErrorMsg ''Failed to process message: Invalid radio metrics - must be numbers'']\<rparr>
       \<and> measurements (on_message geo db auth now (Json data) s) = measurements s"
proof -
  obtain uid where uid: "userId s = Some uid"
    using authenticated_userId [OF assms(1)] by blast
  have pass: "\<not> (js_lt (p_rsrq data) (Num (- 20)) \<or> js_gt (p_rsrq data) (Num (- 3)) \<or>
            js_lt (p_sinr data) (Num (- 10)) \<or> js_gt (p_sinr data) (Num 30) \<or>
            js_lt (p_cqi data) (Num 0) \<or> js_gt (p_cqi data) (Num 15))"
    using absent_or_within_passes [OF assms(5)] absent_or_within_passes [OF assms(6)]
      absent_or_within_passes [OF assms(7)] by simp
  have "\<not> typeof_number (p_rsrq data) \<or> \<not> typeof_number (p_sinr data)
          \<or> \<not> typeof_number (p_cqi data)"
    using assms(8) absent_or_within_typeof [OF assms(5)] absent_or_within_typeof [OF assms(6)]
      absent_or_within_typeof [OF assms(7)] by blast
  then have thrown: "calculateQualityScore (p_rsrq data) (p_sinr data) (p_cqi data) =
                 Inl (Error ''Invalid radio metrics - must be numbers'')"
    by (simp add: calculateQualityScore_def)
  have "handleMeasurement geo db now uid data s =
          Inl (Error ''Invalid radio metrics - must be numbers'')"
    using pass assms(4) by (simp add: handleMeasurement_def thrown Let_def)
  then have "on_message geo db auth now (Json data) s =
           s\<lparr>ws_sent := ws_sent s @
               [ErrorMsg ''Failed to process message: Invalid radio metrics - must be numbers'']\<rparr>"
    by (simp add: on_message_measurement [OF assms(1) uid assms(3)] sendMessage_open assms(2))
  with pass thrown show ?thesis by simp
qed

theorem C10_absent_metric_witness:
  "on_message geo_near db_match auth_example 5
     (Json ((sample (- 10) 10 10)\<lparr>p_cqi := Undefined\<rparr>)) signed_in =
     signed_in\<lparr>ws_sent :=
       [ErrorMsg ''Failed to process message: Invalid radio metrics - must be numbers'']\<rparr>"
proof -
  have v: "isValidCoordinate geo_near (Num 12) (Num 77)"
    by (simp add: geo_near_def valid_coordinate_def js_ge_def)
  show ?thesis
    using C10_absent_metric [where s = signed_in
        and data = "(sample (- 10) 10 10)\<lparr>p_cqi := Undefined\<rparr>"
        and geo = geo_near and db = db_match and auth = auth_example and now = 5]
    by (simp add: signed_in_simps sample_def msg_def absent_or_within_def v)
qed

section \<open>Properties of the best-zone resolver\<close>

lemma js_or_default_defined: "js_or radius (Num d) \<noteq> Undefined"
  by (cases radius) (simp_all add: js_or_def)

lemma findBestZoneHelper_none:
  assumes "findOne_near db uid lon lat
             (Math_min (if r = Undefined then Num DEFAULT_RADIUS_M else r) (Num MAX_RADIUS_M)) = Inr None"
  shows "findBestZoneHelper geo db uid lat lon r = Inr NoData"
  using assms by (simp add: findBestZoneHelper_def Let_def)

lemma findBestZoneHelper_some:
  assumes "findOne_near db uid lon lat
             (Math_min (if r = Undefined then Num DEFAULT_RADIUS_M else r) (Num MAX_RADIUS_M))
           = Inr (Some d)"
  shows "findBestZoneHelper geo db uid lat lon r =
    (let spotLon = fst (doc_coordinates d); spotLat = snd (doc_coordinates d);
         distance = calculateDistance geo lat lon spotLat spotLon;
         bearing = calculateBearing geo lat lon spotLat spotLon;
         direction = getCompassDirection geo bearing
     in Inr (HasData \<lparr>
          bz_bearing = bearing, bz_bearingDirection = direction, bz_distance = distance,
          bz_distanceFormatted = formatDistance geo distance,
          bz_qualityScore = doc_qualityScore d, bz_location = (spotLat, spotLon),
          bz_recommendation =
            ''Move '' @ direction @ '' ('' @ show_int bearing @ degree_http @ '') for ''
            @ (if distance > 100 then formatDistance geo distance else ''nearby'')
            @ '' better signal'' \<rparr>))"
  using assms by (simp add: findBestZoneHelper_def Let_def)

lemma findBestNearbyZone_some:
  assumes "findOne_near db uid lon lat (Num DEFAULT_RADIUS_M) = Inr (Some d)"
  shows "findBestNearbyZone geo db uid lat lon =
    (let spotLon = fst (doc_coordinates d); spotLat = snd (doc_coordinates d);
         distance = calculateDistance geo lat lon spotLat spotLon;
         bearing = calculateBearing geo lat lon spotLat spotLon;
         direction = getCompassDirection geo bearing
     in Some \<lparr>
          nz_bearing = bearing, nz_direction = direction, nz_distance = \<lfloor>distance + 1 / 2\<rfloor>,
          nz_distanceFormatted = formatDistance geo distance,
          nz_qualityScore = doc_qualityScore d,
          nz_recommendation =
            ''Move '' @ direction @ '' ('' @ show_int bearing @ degree_sign
            @ '') for better signal'' \<rparr>)"
  using assms by (simp add: findBestNearbyZone_def Let_def)

text \<open>
  C7: when the record store reports no match, the resolver answers \<open>hasData: false\<close>, on
  the HTTP path (the helper and the \<open>findBestZone\<close> endpoint) and on the session path (the
  \<open>bestZone\<close> of the measurement response). When it reports a match, on each of the three
  the returned bearing is the geodesy module's bearing from the current position to the
  match, and \<open>distanceFormatted\<close> is the geodesy module's formatting of its distance
  between the same two positions.
\<close>

theorem C7_best_zone_result:
  "(findOne_near db uid lon lat
      (Math_min (if r = Undefined then Num DEFAULT_RADIUS_M else r) (Num MAX_RADIUS_M)) = Inr None
      \<longrightarrow> findBestZoneHelper geo db uid lat lon r = Inr NoData)
   \<and> (isValidCoordinate geo lat lon \<and>
      findOne_near db uid lon lat
        (Math_min (js_or radius (Num DEFAULT_RADIUS_M)) (Num MAX_RADIUS_M)) = Inr None
      \<longrightarrow> findBestZone geo db uid lat lon radius = Status200 NoData)
   \<and> (findOne_near db uid lon lat (Num DEFAULT_RADIUS_M) = Inr None
      \<longrightarrow> or_no_data (findBestNearbyZone geo db uid lat lon) = NoData)
   \<and> (findOne_near db uid lon lat
        (Math_min (if r = Undefined then Num DEFAULT_RADIUS_M else r) (Num MAX_RADIUS_M))
        = Inr (Some d)
      \<longrightarrow> (\<exists>z. findBestZoneHelper geo db uid lat lon r = Inr (HasData z)
            \<and> bz_bearing z =
                calculateBearing geo lat lon (snd (doc_coordinates d)) (fst (doc_coordinates d))
            \<and> bz_distanceFormatted z =
                formatDistance geo (calculateDistance geo lat lon
                  (snd (doc_coordinates d)) (fst (doc_coordinates d)))))
   \<and> (isValidCoordinate geo lat lon \<and>
      findOne_near db uid lon lat
        (Math_min (js_or radius (Num DEFAULT_RADIUS_M)) (Num MAX_RADIUS_M)) = Inr (Some d)
      \<longrightarrow> (\<exists>z. findBestZone geo db uid lat lon radius = Status200 (HasData z)
            \<and> bz_bearing z =
                calculateBearing geo lat lon (snd (doc_coordinates d)) (fst (doc_coordinates d))
            \<and> bz_distanceFormatted z =
                formatDistance geo (calculateDistance geo lat lon
                  (snd (doc_coordinates d)) (fst (doc_coordinates d)))))
   \<and> (findOne_near db uid lon lat (Num DEFAULT_RADIUS_M) = Inr (Some d)
      \<longrightarrow> (\<exists>z. or_no_data (findBestNearbyZone geo db uid lat lon) = HasData z
            \<and> nz_bearing z =
                calculateBearing geo lat lon (snd (doc_coordinates d)) (fst (doc_coordinates d))
            \<and> nz_distanceFormatted z =
                formatDistance geo (calculateDistance geo lat lon
                  (snd (doc_coordinates d)) (fst (doc_coordinates d)))))"
proof (intro conjI impI)
  assume "findOne_near db uid lon lat
      (Math_min (if r = Undefined then Num DEFAULT_RADIUS_M else r) (Num MAX_RADIUS_M)) = Inr None"
  then show "findBestZoneHelper geo db uid lat lon r = Inr NoData"
    by (rule findBestZoneHelper_none)
next
  assume h: "isValidCoordinate geo lat lon \<and>
      findOne_near db uid lon lat
        (Math_min (js_or radius (Num DEFAULT_RADIUS_M)) (Num MAX_RADIUS_M)) = Inr None"
  then have "findBestZoneHelper geo db uid lat lon (js_or radius (Num DEFAULT_RADIUS_M)) = Inr NoData"
    by (intro findBestZoneHelper_none) (simp add: js_or_default_defined)
  with h show "findBestZone geo db uid lat lon radius = Status200 NoData"
    by (simp add: findBestZone_def)
next
  assume "findOne_near db uid lon lat (Num DEFAULT_RADIUS_M) = Inr None"
  then show "or_no_data (findBestNearbyZone geo db uid lat lon) = NoData"
    by (simp add: findBestNearbyZone_def or_no_data_def)
next
  assume "findOne_near db uid lon lat
        (Math_min (if r = Undefined then Num DEFAULT_RADIUS_M else r) (Num MAX_RADIUS_M))
        = Inr (Some d)"
  then show "\<exists>z. findBestZoneHelper geo db uid lat lon r = Inr (HasData z)
            \<and> bz_bearing z =
                calculateBearing geo lat lon (snd (doc_coordinates d)) (fst (doc_coordinates d))
            \<and> bz_distanceFormatted z =
                formatDistance geo (calculateDistance geo lat lon
                  (snd (doc_coordinates d)) (fst (doc_coordinates d)))"
    by (simp add: findBestZoneHelper_some Let_def)
next
  assume h: "isValidCoordinate geo lat lon \<and>
      findOne_near db uid lon lat
        (Math_min (js_or radius (Num DEFAULT_RADIUS_M)) (Num MAX_RADIUS_M)) = Inr (Some d)"
  then have "findOne_near db uid lon lat
        (Math_min (if js_or radius (Num DEFAULT_RADIUS_M) = Undefined then Num DEFAULT_RADIUS_M
                   else js_or radius (Num DEFAULT_RADIUS_M)) (Num MAX_RADIUS_M)) = Inr (Some d)"
    by (simp add: js_or_default_defined)
  note m = findBestZoneHelper_some [OF this, of geo]
  from h show "\<exists>z. findBestZone geo db uid lat lon radius = Status200 (HasData z)
            \<and> bz_bearing z =
                calculateBearing geo lat lon (snd (doc_coordinates d)) (fst (doc_coordinates d))
            \<and> bz_distanceFormatted z =
                formatDistance geo (calculateDistance geo lat lon
                  (snd (doc_coordinates d)) (fst (doc_coordinates d)))"
    by (simp add: findBestZone_def m Let_def)
next
  assume "findOne_near db uid lon lat (Num DEFAULT_RADIUS_M) = Inr (Some d)"
  then show "\<exists>z. or_no_data (findBestNearbyZone geo db uid lat lon) = HasData z
            \<and> nz_bearing z =
                calculateBearing geo lat lon (snd (doc_coordinates d)) (fst (doc_coordinates d))
            \<and> nz_distanceFormatted z =
                formatDistance geo (calculateDistance geo lat lon
                  (snd (doc_coordinates d)) (fst (doc_coordinates d)))"
    by (simp add: findBestNearbyZone_some Let_def or_no_data_def)
qed

theorem C7_best_zone_result_witness:
  "findBestZoneHelper geo_near db_empty ''u1'' (Num 12) (Num 77) Undefined = Inr NoData
   \<and> findBestZone geo_near db_empty ''u1'' (Num 12) (Num 77) (Num 2000) = Status200 NoData
   \<and> or_no_data (findBestNearbyZone geo_near db_empty ''u1'' (Num 12) (Num 77)) = NoData
   \<and> (\<exists>z. findBestZoneHelper geo_far db_match ''u1'' (Num 12) (Num 77) Undefined = Inr (HasData z)
         \<and> bz_bearing z = 90 \<and> bz_distanceFormatted z = ''1.50 km'')
   \<and> (\<exists>z. findBestZone geo_far db_match ''u1'' (Num 12) (Num 77) (Num 2000) = Status200 (HasData z)
         \<and> bz_bearing z = 90 \<and> bz_distanceFormatted z = ''1.50 km'')
   \<and> (\<exists>z. or_no_data (findBestNearbyZone geo_far db_match ''u1'' (Num 12) (Num 77)) = HasData z
         \<and> nz_bearing z = 90 \<and> nz_distanceFormatted z = ''1.50 km'')"
proof -
  have v: "isValidCoordinate geo_near (Num 12) (Num 77)"
    by (simp add: geo_near_def valid_coordinate_def js_ge_def)
  have vf: "isValidCoordinate geo_far (Num 12) (Num 77)"
    by (simp add: geo_far_def valid_coordinate_def js_ge_def)
  have e: "findOne_near db_empty uid lon lat r = Inr None" for uid lon lat r
    by (simp add: db_empty_def)
  have m: "findOne_near db_match uid lon lat r = Inr (Some spot)" for uid lon lat r
    by (simp add: db_match_def)
  have g: "calculateBearing geo_far a b c d = 90"
    "formatDistance geo_far x = ''1.50 km''" for a b c d x
    by (simp_all add: geo_far_def)
  show ?thesis
    using C7_best_zone_result [where geo = geo_near and db = db_empty and uid = "''u1''"
        and lat = "Num 12" and lon = "Num 77" and r = Undefined and radius = "Num 2000"]
      C7_best_zone_result [where geo = geo_far and db = db_match and uid = "''u1''"
        and lat = "Num 12" and lon = "Num 77" and r = Undefined and d = spot
        and radius = "Num 2000"]
    by (simp add: v vf e m g)
qed

lemma sublist_mid: "sublist xs (ps @ xs @ ss)"
  by (rule sublist_appendI)

lemma show_nat_90: "show_nat 90 = ''90''"
  by (simp add: digit_char_def)

lemma show_int_90: "show_int 90 = ''90''"
  by (simp add: show_int_def digit_char_def)

text \<open>
  C8, as the code has it: when a match exists, the recommendation of the HTTP path names the
  compass direction, the bearing followed by the degree sign, and \<open>nearby\<close> when the
  distance is at most 100 m or the formatted distance otherwise. The recommendation of the
  session path is \<open>Move <direction> (<bearing> degrees) for better signal\<close>: it names the
  direction and the bearing only. On both paths the quality score of the match is a field
  of the result beside the recommendation.
\<close>

theorem C8_recommendation_text:
  "(findOne_near db uid lon lat
        (Math_min (if r = Undefined then Num DEFAULT_RADIUS_M else r) (Num MAX_RADIUS_M))
        = Inr (Some d)
      \<longrightarrow> (\<exists>z. findBestZoneHelper geo db uid lat lon r = Inr (HasData z)
            \<and> bz_bearingDirection z = getCompassDirection geo (bz_bearing z)
            \<and> sublist (bz_bearingDirection z) (bz_recommendation z)
            \<and> sublist (show_int (bz_bearing z) @ degree_http) (bz_recommendation z)
            \<and> (bz_distance z \<le> 100 \<longrightarrow> sublist ''nearby'' (bz_recommendation z))
            \<and> (bz_distance z > 100 \<longrightarrow> sublist (bz_distanceFormatted z) (bz_recommendation z))
            \<and> bz_qualityScore z = doc_qualityScore d))
   \<and> (findOne_near db uid lon lat (Num DEFAULT_RADIUS_M) = Inr (Some d)
      \<longrightarrow> (\<exists>z. findBestNearbyZone geo db uid lat lon = Some z
            \<and> nz_direction z = getCompassDirection geo (nz_bearing z)
            \<and> nz_recommendation z =
                ''Move '' @ nz_direction z @ '' ('' @ show_int (nz_bearing z) @ degree_sign
                @ '') for better signal''
            \<and> nz_qualityScore z = doc_qualityScore d))"
proof (intro conjI impI)
  assume h: "findOne_near db uid lon lat
        (Math_min (if r = Undefined then Num DEFAULT_RADIUS_M else r) (Num MAX_RADIUS_M))
        = Inr (Some d)"
  define dist where "dist = calculateDistance geo lat lon (snd (doc_coordinates d)) (fst (doc_coordinates d))"
  define b where "b = calculateBearing geo lat lon (snd (doc_coordinates d)) (fst (doc_coordinates d))"
  define dir where "dir = getCompassDirection geo b"
  define tail where "tail = (if dist > 100 then formatDistance geo dist else ''nearby'')"
  define rec where "rec = ''Move '' @ dir @ '' ('' @ show_int b @ degree_http @ '') for ''
                    @ tail @ '' better signal''"
  define z where "z = \<lparr> bz_bearing = b, bz_bearingDirection = dir, bz_distance = dist,
          bz_distanceFormatted = formatDistance geo dist,
          bz_qualityScore = doc_qualityScore d,
          bz_location = (snd (doc_coordinates d), fst (doc_coordinates d)),
          bz_recommendation = rec \<rparr>"
  have res: "findBestZoneHelper geo db uid lat lon r = Inr (HasData z)"
    by (simp add: findBestZoneHelper_some [OF h] Let_def z_def rec_def tail_def dir_def b_def dist_def)
  have 1: "sublist dir rec"
    unfolding rec_def by (rule sublist_mid)
  have "rec = (''Move '' @ dir @ '' ('') @ (show_int b @ degree_http)
                 @ ('') for '' @ tail @ '' better signal'')"
    by (simp add: rec_def)
  then have 2: "sublist (show_int b @ degree_http) rec"
    using sublist_mid by metis
  have "rec = (''Move '' @ dir @ '' ('' @ show_int b @ degree_http @ '') for '') @ tail
                 @ '' better signal''"
    by (simp add: rec_def)
  then have 3: "sublist tail rec"
    using sublist_mid by metis
  show "\<exists>z. findBestZoneHelper geo db uid lat lon r = Inr (HasData z)
            \<and> bz_bearingDirection z = getCompassDirection geo (bz_bearing z)
            \<and> sublist (bz_bearingDirection z) (bz_recommendation z)
            \<and> sublist (show_int (bz_bearing z) @ degree_http) (bz_recommendation z)
            \<and> (bz_distance z \<le> 100 \<longrightarrow> sublist ''nearby'' (bz_recommendation z))
            \<and> (bz_distance z > 100 \<longrightarrow> sublist (bz_distanceFormatted z) (bz_recommendation z))
            \<and> bz_qualityScore z = doc_qualityScore d"
  proof (intro exI [of _ z] conjI impI)
    show "findBestZoneHelper geo db uid lat lon r = Inr (HasData z)" by (rule res)
    show "bz_bearingDirection z = getCompassDirection geo (bz_bearing z)"
      by (simp add: z_def dir_def)
    show "sublist (bz_bearingDirection z) (bz_recommendation z)"
      using 1 by (simp add: z_def)
    show "sublist (show_int (bz_bearing z) @ degree_http) (bz_recommendation z)"
      using 2 by (simp add: z_def)
    show "sublist ''nearby'' (bz_recommendation z)" if "bz_distance z \<le> 100"
      using 3 that by (simp add: z_def tail_def)
    show "sublist (bz_distanceFormatted z) (bz_recommendation z)" if "bz_distance z > 100"
      using 3 that by (simp add: z_def tail_def)
    show "bz_qualityScore z = doc_qualityScore d" by (simp add: z_def)
  qed
next
  assume "findOne_near db uid lon lat (Num DEFAULT_RADIUS_M) = Inr (Some d)"
  then show "\<exists>z. findBestNearbyZone geo db uid lat lon = Some z
            \<and> nz_direction z = getCompassDirection geo (nz_bearing z)
            \<and> nz_recommendation z =
                ''Move '' @ nz_direction z @ '' ('' @ show_int (nz_bearing z) @ degree_sign
                @ '') for better signal''
            \<and> nz_qualityScore z = doc_qualityScore d"
    by (simp add: findBestNearbyZone_some Let_def)
qed

theorem C8_recommendation_text_witness:
  "(\<exists>z. findBestZoneHelper geo_near db_match ''u1'' (Num 12) (Num 77) Undefined = Inr (HasData z)
       \<and> sublist ''E'' (bz_recommendation z) \<and> sublist (''90'' @ degree_http) (bz_recommendation z)
       \<and> sublist ''nearby'' (bz_recommendation z) \<and> bz_qualityScore z = 40)
   \<and> (\<exists>z. findBestZoneHelper geo_far db_match ''u1'' (Num 12) (Num 77) Undefined = Inr (HasData z)
       \<and> sublist ''E'' (bz_recommendation z) \<and> sublist (''90'' @ degree_http) (bz_recommendation z)
       \<and> sublist ''1.50 km'' (bz_recommendation z) \<and> bz_qualityScore z = 40)
   \<and> (\<exists>z. findBestNearbyZone geo_near db_match ''u1'' (Num 12) (Num 77) = Some z
       \<and> nz_recommendation z = ''Move E (90'' @ degree_sign @ '') for better signal''
       \<and> nz_qualityScore z = 40)"
proof -
  have m: "findOne_near db_match uid lon lat r = Inr (Some spot)" for uid lon lat r
    by (simp add: db_match_def)
  have near: "\<exists>z. findBestZoneHelper geo_near db_match ''u1'' (Num 12) (Num 77) Undefined = Inr (HasData z)
       \<and> sublist ''E'' (bz_recommendation z) \<and> sublist (''90'' @ degree_http) (bz_recommendation z)
       \<and> sublist ''nearby'' (bz_recommendation z) \<and> bz_qualityScore z = 40"
    using C8_recommendation_text [where geo = geo_near and db = db_match and uid = "''u1''"
        and lat = "Num 12" and lon = "Num 77" and r = Undefined and d = spot]
    by (simp add: m findBestZoneHelper_some Let_def geo_near_def spot_def show_int_90)
  have far: "\<exists>z. findBestZoneHelper geo_far db_match ''u1'' (Num 12) (Num 77) Undefined = Inr (HasData z)
       \<and> sublist ''E'' (bz_recommendation z) \<and> sublist (''90'' @ degree_http) (bz_recommendation z)
       \<and> sublist ''1.50 km'' (bz_recommendation z) \<and> bz_qualityScore z = 40"
    using C8_recommendation_text [where geo = geo_far and db = db_match and uid = "''u1''"
        and lat = "Num 12" and lon = "Num 77" and r = Undefined and d = spot]
    by (simp add: m findBestZoneHelper_some Let_def geo_far_def spot_def show_int_90)
  have ws: "\<exists>z. findBestNearbyZone geo_near db_match ''u1'' (Num 12) (Num 77) = Some z
       \<and> nz_recommendation z = ''Move E (90'' @ degree_sign @ '') for better signal''
       \<and> nz_qualityScore z = 40"
    using C8_recommendation_text [where geo = geo_near and db = db_match and uid = "''u1''"
        and lat = "Num 12" and lon = "Num 77" and r = Undefined and d = spot]
    by (simp add: m findBestNearbyZone_some Let_def geo_near_def spot_def show_int_90)
  from near far ws show ?thesis by blast
qed

text \<open>
  C8 as stated fails on the session path: with a match 50 m away, and with a match 1500 m
  away, the recommendation is \<open>Move E (90 degrees) for better signal\<close>, which holds neither
  the word \<open>nearby\<close> nor the formatted distance.
\<close>

theorem C8_session_path_counterexample:
  "calculateDistance geo_near (Num 12) (Num 77) 12 77 \<le> 100
   \<and> map_option nz_recommendation (findBestNearbyZone geo_near db_match ''u1'' (Num 12) (Num 77))
       = Some (''Move E (90'' @ degree_sign @ '') for better signal'')
   \<and> \<not> sublist ''nearby'' (''Move E (90'' @ degree_sign @ '') for better signal'')
   \<and> calculateDistance geo_far (Num 12) (Num 77) 12 77 > 100
   \<and> map_option nz_recommendation (findBestNearbyZone geo_far db_match ''u1'' (Num 12) (Num 77))
       = Some (''Move E (90'' @ degree_sign @ '') for better signal'')
   \<and> map_option nz_distanceFormatted (findBestNearbyZone geo_far db_match ''u1'' (Num 12) (Num 77))
       = Some ''1.50 km''
   \<and> \<not> sublist ''1.50 km'' (''Move E (90'' @ degree_sign @ '') for better signal'')"
proof -
  have m: "findOne_near db_match uid lon lat r = Inr (Some spot)" for uid lon lat r
    by (simp add: db_match_def)
  have 1: "\<not> sublist ''nearby'' (''Move E (90'' @ degree_sign @ '') for better signal'')"
    by (simp add: degree_sign_def sublist_Cons_right prefix_Cons)
  have 2: "\<not> sublist ''1.50 km'' (''Move E (90'' @ degree_sign @ '') for better signal'')"
    by (simp add: degree_sign_def sublist_Cons_right prefix_Cons)
  show ?thesis
    using 1 2
    by (simp add: findBestNearbyZone_some [OF m] Let_def geo_near_def geo_far_def spot_def
        show_int_90)
qed

section \<open>Measurement and stop events\<close>

lemma handleMeasurement_valid:
  assumes "ws_open s"
    and "isValidCoordinate geo (p_latitude data) (p_longitude data)"
    and "p_rsrq data = Num r" "p_sinr data = Num sn" "p_cqi data = Num c"
    and "in_range r sn c"
  shows "\<exists>resp. handleMeasurement geo db now uid data s =
           Inr (s\<lparr>measurements := measurements s @ [\<lparr>
                     m_rsrq = Num r, m_sinr = Num sn, m_cqi = Num c,
                     m_latitude = p_latitude data, m_longitude = p_longitude data,
                     m_qualityScore = Num (of_int (round (max 0 (min 100 (raw_score r sn c))))),
                     m_downloadSpeed = js_or (p_downloadSpeed data) (Num 0),
                     m_uploadSpeed = js_or (p_uploadSpeed data) (Num 0),
                     m_timestamp = (if falsy (p_timestamp data) then ServerDate now
                                    else ClientStamp (p_timestamp data)) \<rparr>],
                  db_calls := db_calls s @
                    [FindOneNear uid (p_longitude data) (p_latitude data) (Num DEFAULT_RADIUS_M)],
                  ws_sent := ws_sent s @ [MeasurementResponse resp]\<rparr>)
         \<and> r_bestZone resp =
             or_no_data (findBestNearbyZone geo db uid (p_latitude data) (p_longitude data))
         \<and> r_qualityScore resp = Num (of_int (round (max 0 (min 100 (raw_score r sn c)))))"
proof -
  have pass: "\<not> (js_lt (Num r) (Num (- 20)) \<or> js_gt (Num r) (Num (- 3)) \<or>
            js_lt (Num sn) (Num (- 10)) \<or> js_gt (Num sn) (Num 30) \<or>
            js_lt (Num c) (Num 0) \<or> js_gt (Num c) (Num 15))"
    using assms(6) by (simp add: in_range_def js_lt_def js_gt_def)
  define q where "q = Num (of_int (round (max 0 (min 100 (raw_score r sn c)))))"
  define resp where "resp = \<lparr>
      r_qualityScore = q,
      r_humanMessage = generateHumanMessage q (Num r) (Num sn) (Num c),
      r_bestZone = or_no_data (findBestNearbyZone geo db uid (p_latitude data) (p_longitude data)),
      r_rsrq = Num r, r_sinr = Num sn, r_cqi = Num c,
      r_downloadSpeed = js_or (p_downloadSpeed data) (Num 0),
      r_uploadSpeed = js_or (p_uploadSpeed data) (Num 0),
      r_timestamp = now \<rparr>"
  show ?thesis
    using pass assms(1,2)
    by (intro exI [of _ resp])
      (simp add: handleMeasurement_def assms(3,4,5) Let_def sendMessage_def
        calculateQualityScore_in_range [OF assms(6)] resp_def q_def)
qed



lemma average_two:
  assumes "f m1 = Num x" "f m2 = Num y"
  shows "average f [m1, m2] = Num (fl (fl (fl x + y) / 2))"
  by (simp add: average_def js_add_def js_div_def arith2_def assms)

text \<open>
  \<open>toFixed(2)\<close> acts on the mean that double arithmetic computes: for the two doubles
  nearest to 0.01 and 0.02 that mean lies just below 0.015, and the reported average is the
  double nearest to 0.01, whereas the exact mean 0.015 of the two decimals rounds to 0.02.
\<close>

lemma toFixed_acts_on_the_double_mean:
  "parseFloat_toFixed2
     (average m_sinr [sample_a\<lparr>m_sinr := Num (fl (1 / 100))\<rparr>,
                      sample_b\<lparr>m_sinr := Num (fl (1 / 50))\<rparr>]) = Num (fl (1 / 100))"
  "round2 ((1 / 100 + 1 / 50) / 2) = 1 / 50"
proof -
  have avg: "average m_sinr [sample_a\<lparr>m_sinr := Num (fl (1 / 100))\<rparr>,
                             sample_b\<lparr>m_sinr := Num (fl (1 / 50))\<rparr>]
               = Num (fl (fl (fl (fl (1 / 100)) + fl (1 / 50)) / 2))"
    by (rule average_two) simp_all
  have t1: "fl (1 / 100) = (5764607523034235 / 576460752303423488)"
    using fl_value [where x = "1 / 100" and e = "- 7" and n = 5764607523034235] by simp
  have t2: "fl (1 / 50) = (5764607523034235 / 288230376151711744)"
    using fl_value [where x = "1 / 50" and e = "- 6" and n = 5764607523034235] by simp
  have t3: "fl ((5764607523034235 / 576460752303423488)) = (5764607523034235 / 576460752303423488)"
    using fl_value [where x = "(5764607523034235 / 576460752303423488)" and e = "- 7" and n = 5764607523034235] by simp
  have t4: "fl ((5764607523034235 / 576460752303423488) + (5764607523034235 / 288230376151711744)) = (1080863910568919 / 36028797018963968)"
    using fl_value_tie [where x = "(5764607523034235 / 576460752303423488) + (5764607523034235 / 288230376151711744)" and e = "- 6" and f = 8646911284551352] by simp
  have t5: "fl ((1080863910568919 / 36028797018963968) / 2) = (1080863910568919 / 72057594037927936)"
    using fl_value [where x = "(1080863910568919 / 36028797018963968) / 2" and e = "- 7" and n = 8646911284551352] by simp
  have m: "fl (fl (fl (fl (1 / 100)) + fl (1 / 50)) / 2) = (1080863910568919 / 72057594037927936)"
    unfolding t1 t2 t3 t4 t5 by (rule refl)
  have r: "round2 (1080863910568919 / 72057594037927936) = 1 / 100"
    by (simp add: round2_def)
  show "parseFloat_toFixed2
     (average m_sinr [sample_a\<lparr>m_sinr := Num (fl (1 / 100))\<rparr>,
                      sample_b\<lparr>m_sinr := Num (fl (1 / 50))\<rparr>]) = Num (fl (1 / 100))"
    unfolding avg m by (simp add: parseFloat_toFixed2_def r)
  show "round2 ((1 / 100 + 1 / 50) / 2) = 1 / 50"
    by (simp add: round2_def)
qed



lemma round2_error: "\<bar>round2 x - x\<bar> \<le> 1 / 200"
proof -
  define y where "y = \<bar>x\<bar> * 100"
  define k where "k = \<lfloor>y + 1 / 2\<rfloor>"
  have "of_int k \<le> y + 1 / 2" "y + 1 / 2 < of_int k + 1"
    unfolding k_def by linarith+
  then have d: "\<bar>of_int k - y\<bar> \<le> 1 / 2" by linarith
  have r: "round2 x = sgn x * of_int k / 100"
    by (simp add: round2_def k_def y_def)
  consider "x < 0" | "x = 0" | "0 < x" by linarith
  then show ?thesis
  proof cases
    case 1
    then have "y = - x * 100" "round2 x = - of_int k / 100"
      by (simp_all add: r y_def)
    then have e: "round2 x - x = (y - of_int k) / 100"
      by (simp add: field_simps)
    have "\<bar>round2 x - x\<bar> = \<bar>y - of_int k\<bar> / 100"
      unfolding e abs_divide by simp
    also have "\<dots> = \<bar>of_int k - y\<bar> / 100"
      by (simp only: abs_minus_commute)
    also have "\<dots> \<le> (1 / 2) / 100"
      by (rule divide_right_mono [OF d]) simp
    finally show ?thesis by simp
  next
    case 2
    then show ?thesis by (simp add: round2_def)
  next
    case 3
    then have "y = x * 100" "round2 x = of_int k / 100"
      by (simp_all add: r y_def)
    then have e: "round2 x - x = (of_int k - y) / 100"
      by (simp add: field_simps)
    have "\<bar>round2 x - x\<bar> = \<bar>of_int k - y\<bar> / 100"
      unfolding e abs_divide by simp
    also have "\<dots> \<le> (1 / 2) / 100"
      by (rule divide_right_mono [OF d]) simp
    finally show ?thesis by simp
  qed
qed


lemma handleStop_failed:
  assumes "ws_open s" "measurements s \<noteq> []"
    and "insertMany db (map (to_doc uid) (measurements s)) = Inl e"
  shows "handleStop db now uid s =
    s\<lparr>db_calls := db_calls s @ [InsertMany (map (to_doc uid) (measurements s))],
      ws_sent := ws_sent s @ [ErrorMsg (''Failed to save measurements: '' @ message e)]\<rparr>"
  using assms by (simp add: handleStop_def Let_def sendMessage_def)



lemma on_message_valid_measurement:
  assumes "authenticated s" "userId s = Some uid" "ws_open s"
    and "p_type data = Some ''measurement''"
    and "isValidCoordinate geo (p_latitude data) (p_longitude data)"
    and "p_rsrq data = Num r" "p_sinr data = Num sn" "p_cqi data = Num c"
    and "in_range r sn c"
  shows "\<exists>resp. on_message geo db auth now (Json data) s =
           s\<lparr>measurements := measurements s @ [\<lparr>
                     m_rsrq = Num r, m_sinr = Num sn, m_cqi = Num c,
                     m_latitude = p_latitude data, m_longitude = p_longitude data,
                     m_qualityScore = Num (of_int (round (max 0 (min 100 (raw_score r sn c))))),
                     m_downloadSpeed = js_or (p_downloadSpeed data) (Num 0),
                     m_uploadSpeed = js_or (p_uploadSpeed data) (Num 0),
                     m_timestamp = (if falsy (p_timestamp data) then ServerDate now
                                    else ClientStamp (p_timestamp data)) \<rparr>],
             db_calls := db_calls s @
               [FindOneNear uid (p_longitude data) (p_latitude data) (Num DEFAULT_RADIUS_M)],
             ws_sent := ws_sent s @ [MeasurementResponse resp],
             measurementCount := measurementCount s + 1\<rparr>
         \<and> r_bestZone resp =
             or_no_data (findBestNearbyZone geo db uid (p_latitude data) (p_longitude data))
         \<and> r_qualityScore resp = Num (of_int (round (max 0 (min 100 (raw_score r sn c)))))"
proof -
  obtain resp where
    "handleMeasurement geo db now uid data s =
           Inr (s\<lparr>measurements := measurements s @ [\<lparr>
                     m_rsrq = Num r, m_sinr = Num sn, m_cqi = Num c,
                     m_latitude = p_latitude data, m_longitude = p_longitude data,
                     m_qualityScore = Num (of_int (round (max 0 (min 100 (raw_score r sn c))))),
                     m_downloadSpeed = js_or (p_downloadSpeed data) (Num 0),
                     m_uploadSpeed = js_or (p_uploadSpeed data) (Num 0),
                     m_timestamp = (if falsy (p_timestamp data) then ServerDate now
                                    else ClientStamp (p_timestamp data)) \<rparr>],
                  db_calls := db_calls s @
                    [FindOneNear uid (p_longitude data) (p_latitude data) (Num DEFAULT_RADIUS_M)],
                  ws_sent := ws_sent s @ [MeasurementResponse resp]\<rparr>)"
    and "r_bestZone resp =
             or_no_data (findBestNearbyZone geo db uid (p_latitude data) (p_longitude data))"
    and "r_qualityScore resp = Num (of_int (round (max 0 (min 100 (raw_score r sn c)))))"
    using handleMeasurement_valid [OF assms(3,5,6,7,8,9)] by blast
  then show ?thesis
    by (intro exI [of _ resp]) (simp add: on_message_measurement [OF assms(1,2,4)])
qed

lemma sample_simps:
  "p_type (sample r s c) = Some ''measurement''"
  "p_rsrq (sample r s c) = Num r" "p_sinr (sample r s c) = Num s" "p_cqi (sample r s c) = Num c"
  "p_latitude (sample r s c) = Num 12" "p_longitude (sample r s c) = Num 77"
  "p_downloadSpeed (sample r s c) = Undefined" "p_uploadSpeed (sample r s c) = Undefined"
  "p_timestamp (sample r s c) = Undefined"
  by (simp_all add: sample_def msg_def)

lemma valid_12_77: "isValidCoordinate geo_near (Num 12) (Num 77)"
  by (simp add: geo_near_def valid_coordinate_def js_ge_def)

lemma raw_score_a: "raw_score (- 10) 10 10 = (6473924464345087 / 281474976710656)"
proof -
  have a1: "fl (5 / 10) = (1 / 2)"
    using fl_value [where x = "5 / 10" and e = "- 1" and n = 4503599627370496] by simp
  have a2: "fl (3 / 10) = (5404319552844595 / 18014398509481984)"
    using fl_value [where x = "3 / 10" and e = "- 2" and n = 5404319552844595] by simp
  have a3: "fl (2 / 10) = (3602879701896397 / 18014398509481984)"
    using fl_value [where x = "2 / 10" and e = "- 3" and n = 7205759403792794] by simp
  have a4: "fl (10 * (1 / 2)) = 5"
    using fl_value [where x = "10 * (1 / 2)" and e = "2" and n = 5629499534213120] by simp
  have a5: "fl (10 / 15) = (6004799503160661 / 9007199254740992)"
    using fl_value [where x = "10 / 15" and e = "- 1" and n = 6004799503160661] by simp
  have a6: "fl ((6004799503160661 / 9007199254740992) * 100) = (2345624805922133 / 35184372088832)"
    using fl_value [where x = "(6004799503160661 / 9007199254740992) * 100" and e = "6" and n = 4691249611844266] by simp
  have a7: "fl ((2345624805922133 / 35184372088832) * (5404319552844595 / 18014398509481984)) = (5629499534213119 / 281474976710656)"
    using fl_value [where x = "(2345624805922133 / 35184372088832) * (5404319552844595 / 18014398509481984)" and e = "4" and n = 5629499534213119] by simp
  have a8: "fl (\<bar>- 10\<bar> * (3602879701896397 / 18014398509481984)) = 2"
    using fl_value [where x = "\<bar>- 10\<bar> * (3602879701896397 / 18014398509481984)" and e = "1" and n = 4503599627370496] by simp
  have a9: "fl (5 + (5629499534213119 / 281474976710656)) = (7036874417766399 / 281474976710656)"
    using fl_value [where x = "5 + (5629499534213119 / 281474976710656)" and e = "4" and n = 7036874417766399] by simp
  have a10: "fl ((7036874417766399 / 281474976710656) - 2) = (6473924464345087 / 281474976710656)"
    using fl_value [where x = "(7036874417766399 / 281474976710656) - 2" and e = "4" and n = 6473924464345087] by simp
  show ?thesis
    unfolding raw_score_def a1 a2 a3 a4 a5 a6 a7 a8 a9 a10 by (rule refl)
qed

lemma raw_score_b: "raw_score (- 10) 12 10 = (6755399441055743 / 281474976710656)"
proof -
  have b1: "fl (5 / 10) = (1 / 2)"
    using fl_value [where x = "5 / 10" and e = "- 1" and n = 4503599627370496] by simp
  have b2: "fl (3 / 10) = (5404319552844595 / 18014398509481984)"
    using fl_value [where x = "3 / 10" and e = "- 2" and n = 5404319552844595] by simp
  have b3: "fl (2 / 10) = (3602879701896397 / 18014398509481984)"
    using fl_value [where x = "2 / 10" and e = "- 3" and n = 7205759403792794] by simp
  have b4: "fl (12 * (1 / 2)) = 6"
    using fl_value [where x = "12 * (1 / 2)" and e = "2" and n = 6755399441055744] by simp
  have b5: "fl (10 / 15) = (6004799503160661 / 9007199254740992)"
    using fl_value [where x = "10 / 15" and e = "- 1" and n = 6004799503160661] by simp
  have b6: "fl ((6004799503160661 / 9007199254740992) * 100) = (2345624805922133 / 35184372088832)"
    using fl_value [where x = "(6004799503160661 / 9007199254740992) * 100" and e = "6" and n = 4691249611844266] by simp
  have b7: "fl ((2345624805922133 / 35184372088832) * (5404319552844595 / 18014398509481984)) = (5629499534213119 / 281474976710656)"
    using fl_value [where x = "(2345624805922133 / 35184372088832) * (5404319552844595 / 18014398509481984)" and e = "4" and n = 5629499534213119] by simp
  have b8: "fl (\<bar>- 10\<bar> * (3602879701896397 / 18014398509481984)) = 2"
    using fl_value [where x = "\<bar>- 10\<bar> * (3602879701896397 / 18014398509481984)" and e = "1" and n = 4503599627370496] by simp
  have b9: "fl (6 + (5629499534213119 / 281474976710656)) = (7318349394477055 / 281474976710656)"
    using fl_value [where x = "6 + (5629499534213119 / 281474976710656)" and e = "4" and n = 7318349394477055] by simp
  have b10: "fl ((7318349394477055 / 281474976710656) - 2) = (6755399441055743 / 281474976710656)"
    using fl_value [where x = "(7318349394477055 / 281474976710656) - 2" and e = "4" and n = 6755399441055743] by simp
  show ?thesis
    unfolding raw_score_def b1 b2 b3 b4 b5 b6 b7 b8 b9 b10 by (rule refl)
qed

lemma score_a: "round (max 0 (min 100 (raw_score (- 10) 10 10))) = 23"
  unfolding raw_score_a by (simp add: round_def)

lemma score_b: "round (max 0 (min 100 (raw_score (- 10) 12 10))) = 24"
  unfolding raw_score_b by (simp add: round_def)

lemma two_samples_state:
  "authenticated two_samples" "userId two_samples = Some ''u1''" "ws_open two_samples"
  "measurements two_samples = [sample_a, sample_b]"
  "db_calls two_samples =
     [FindOneNear ''u1'' (Num 77) (Num 12) (Num DEFAULT_RADIUS_M),
      FindOneNear ''u1'' (Num 77) (Num 12) (Num DEFAULT_RADIUS_M)]"
  "sessionId two_samples = ''s1''" "sessionStartTime two_samples = 0"
proof -
  define s1 where
    "s1 = on_message geo_near db_empty auth_example 1000 (Json (sample (- 10) 10 10)) signed_in"
  have ra: "in_range (- 10) 10 10" and rb: "in_range (- 10) 12 10"
    by (simp_all add: in_range_def)
  have v: "isValidCoordinate geo_near (p_latitude (sample r s c)) (p_longitude (sample r s c))"
    for r s c
    by (simp add: sample_simps valid_12_77)
  note h1 = on_message_valid_measurement [OF signed_in_simps(1,4,2) sample_simps(1) v
      sample_simps(2,3,4) ra, where db = db_empty and auth = auth_example and now = 1000]
  obtain resp1 where 1: "s1 = signed_in\<lparr>measurements := [sample_a],
      db_calls := [FindOneNear ''u1'' (Num 77) (Num 12) (Num DEFAULT_RADIUS_M)],
      ws_sent := [MeasurementResponse resp1], measurementCount := 1\<rparr>"
    using h1 unfolding s1_def
    by (auto simp add: signed_in_simps sample_simps score_a sample_a_def js_or_def)
  have a1: "authenticated s1" "userId s1 = Some ''u1''" "ws_open s1"
    by (simp_all add: 1 signed_in_simps authenticated_def)
  note h2 = on_message_valid_measurement [OF a1 sample_simps(1) v
      sample_simps(2,3,4) rb, where db = db_empty and auth = auth_example and now = 2000]
  obtain resp2 where 2: "on_message geo_near db_empty auth_example 2000
        (Json (sample (- 10) 12 10)) s1 =
      s1\<lparr>measurements := [sample_a, sample_b],
      db_calls := [FindOneNear ''u1'' (Num 77) (Num 12) (Num DEFAULT_RADIUS_M),
                   FindOneNear ''u1'' (Num 77) (Num 12) (Num DEFAULT_RADIUS_M)],
      ws_sent := [MeasurementResponse resp1, MeasurementResponse resp2],
      measurementCount := 2\<rparr>"
    using h2
    by (auto simp add: sample_simps score_b sample_b_def js_or_def 1 signed_in_simps
        numeral_2_eq_2)
  have ts: "two_samples = s1\<lparr>measurements := [sample_a, sample_b],
      db_calls := [FindOneNear ''u1'' (Num 77) (Num 12) (Num DEFAULT_RADIUS_M),
                   FindOneNear ''u1'' (Num 77) (Num 12) (Num DEFAULT_RADIUS_M)],
      ws_sent := [MeasurementResponse resp1, MeasurementResponse resp2],
      measurementCount := 2\<rparr>"
    using 2 by (simp add: two_samples_def s1_def)
  show "authenticated two_samples" "userId two_samples = Some ''u1''" "ws_open two_samples"
    "measurements two_samples = [sample_a, sample_b]"
    "db_calls two_samples =
       [FindOneNear ''u1'' (Num 77) (Num 12) (Num DEFAULT_RADIUS_M),
        FindOneNear ''u1'' (Num 77) (Num 12) (Num DEFAULT_RADIUS_M)]"
    "sessionId two_samples = ''s1''" "sessionStartTime two_samples = 0"
    using a1 by (simp_all add: ts authenticated_def 1 signed_in_simps)
qed









lemma findBestNearbyZone_failed:
  assumes "findOne_near db uid lon lat (Num DEFAULT_RADIUS_M) = Inl e"
  shows "or_no_data (findBestNearbyZone geo db uid lat lon) = NoData"
  using assms by (simp add: findBestNearbyZone_def or_no_data_def)

text \<open>
  C9, as the code has it. When the record store fails during the best-zone lookup of a valid
  measurement, no error is surfaced: the sample is stored and the client receives the
  ordinary measurement response, with \<open>bestZone\<close> \<open>hasData: false\<close>. When it fails during
  the batch insert of a \<open>stop\<close>, the client receives the error "Failed to save
  measurements: ...". In both cases the session stays authenticated and the connection open.
\<close>

theorem C9_store_failure:
  assumes "authenticated s" "userId s = Some uid" "ws_open s"
  shows "(p_type data = Some ''measurement''
          \<and> isValidCoordinate geo (p_latitude data) (p_longitude data)
          \<and> p_rsrq data = Num r \<and> p_sinr data = Num sn \<and> p_cqi data = Num c \<and> in_range r sn c
          \<and> findOne_near db uid (p_longitude data) (p_latitude data) (Num DEFAULT_RADIUS_M) = Inl e
          \<longrightarrow> (let s' = on_message geo db auth now (Json data) s
               in (\<exists>resp. ws_sent s' = ws_sent s @ [MeasurementResponse resp]
                     \<and> r_bestZone resp = NoData)
                  \<and> length (measurements s') = length (measurements s) + 1
                  \<and> authenticated s' \<and> ws_open s' \<and> ws_close s' = ws_close s))
       \<and> (p_type data = Some ''stop'' \<and> measurements s \<noteq> []
          \<and> insertMany db (map (to_doc uid) (measurements s)) = Inl e
          \<longrightarrow> (let s' = on_message geo db auth now (Json data) s
               in s' = s\<lparr>db_calls := db_calls s @ [InsertMany (map (to_doc uid) (measurements s))],
                        ws_sent := ws_sent s
                          @ [ErrorMsg (''Failed to save measurements: '' @ message e)],
                        measurements := []\<rparr>
                  \<and> authenticated s' \<and> ws_open s' \<and> ws_close s' = ws_close s))"
proof (intro conjI impI)
  assume h: "p_type data = Some ''measurement''
          \<and> isValidCoordinate geo (p_latitude data) (p_longitude data)
          \<and> p_rsrq data = Num r \<and> p_sinr data = Num sn \<and> p_cqi data = Num c \<and> in_range r sn c
          \<and> findOne_near db uid (p_longitude data) (p_latitude data) (Num DEFAULT_RADIUS_M) = Inl e"
  then have nd: "or_no_data (findBestNearbyZone geo db uid (p_latitude data) (p_longitude data))
                   = NoData"
    by (intro findBestNearbyZone_failed) simp
  from h have "p_type data = Some ''measurement''"
    "isValidCoordinate geo (p_latitude data) (p_longitude data)"
    "p_rsrq data = Num r" "p_sinr data = Num sn" "p_cqi data = Num c" "in_range r sn c"
    by simp_all
  from on_message_valid_measurement [OF assms this, of db auth now]
  obtain resp m where
    eq: "on_message geo db auth now (Json data) s =
           s\<lparr>measurements := measurements s @ [m],
             db_calls := db_calls s @
               [FindOneNear uid (p_longitude data) (p_latitude data) (Num DEFAULT_RADIUS_M)],
             ws_sent := ws_sent s @ [MeasurementResponse resp],
             measurementCount := measurementCount s + 1\<rparr>"
    and bz: "r_bestZone resp =
             or_no_data (findBestNearbyZone geo db uid (p_latitude data) (p_longitude data))"
    by blast
  show "let s' = on_message geo db auth now (Json data) s
        in (\<exists>resp. ws_sent s' = ws_sent s @ [MeasurementResponse resp]
                     \<and> r_bestZone resp = NoData)
           \<and> length (measurements s') = length (measurements s) + 1
           \<and> authenticated s' \<and> ws_open s' \<and> ws_close s' = ws_close s"
    using assms(1,3) bz nd by (simp add: eq Let_def authenticated_def)
next
  assume h: "p_type data = Some ''stop'' \<and> measurements s \<noteq> []
          \<and> insertMany db (map (to_doc uid) (measurements s)) = Inl e"
  then have ty: "p_type data = Some ''stop''" and ne: "measurements s \<noteq> []"
    and ins: "insertMany db (map (to_doc uid) (measurements s)) = Inl e"
    by simp_all
  have eq: "on_message geo db auth now (Json data) s =
          s\<lparr>db_calls := db_calls s @ [InsertMany (map (to_doc uid) (measurements s))],
            ws_sent := ws_sent s @ [ErrorMsg (''Failed to save measurements: '' @ message e)],
            measurements := []\<rparr>"
    by (simp add: on_message_stop [OF assms(1,2) ty] handleStop_failed [OF assms(3) ne ins])
  show "let s' = on_message geo db auth now (Json data) s
        in s' = s\<lparr>db_calls := db_calls s @ [InsertMany (map (to_doc uid) (measurements s))],
                  ws_sent := ws_sent s
                    @ [ErrorMsg (''Failed to save measurements: '' @ message e)],
                  measurements := []\<rparr>
           \<and> authenticated s' \<and> ws_open s' \<and> ws_close s' = ws_close s"
    using assms(1,3) by (simp add: eq Let_def authenticated_def)
qed

lemma db_down_simps:
  "findOne_near db_down uid lon lat r = Inl (Error ''connection lost'')"
  "insertMany db_down docs = Inl (Error ''connection lost'')"
  by (simp_all add: db_down_def)

theorem C9_store_failure_witness:
  "(let s' = on_message geo_near db_down auth_example 1000 (Json (sample (- 10) 10 10)) signed_in
    in (\<exists>resp. ws_sent s' = [MeasurementResponse resp] \<and> r_bestZone resp = NoData)
       \<and> length (measurements s') = 1 \<and> authenticated s' \<and> ws_open s')
   \<and> (let s' = on_message geo_near db_down auth_example 3000 (Json (msg ''stop'')) two_samples
      in ws_sent s' = ws_sent two_samples
             @ [ErrorMsg ''Failed to save measurements: connection lost'']
         \<and> measurements s' = [] \<and> authenticated s' \<and> ws_open s')"
proof -
  have ra: "in_range (- 10) 10 10"
    by (simp add: in_range_def)
  have a: "let s' = on_message geo_near db_down auth_example 1000
                      (Json (sample (- 10) 10 10)) signed_in
    in (\<exists>resp. ws_sent s' = [MeasurementResponse resp] \<and> r_bestZone resp = NoData)
       \<and> length (measurements s') = 1 \<and> authenticated s' \<and> ws_open s'"
    using C9_store_failure [OF signed_in_simps(1,4,2), where data = "sample (- 10) 10 10"
        and geo = geo_near and db = db_down and auth = auth_example and now = 1000
        and r = "- 10" and sn = 10 and c = 10 and e = "Error ''connection lost''"]
    by (auto simp add: sample_simps valid_12_77 ra db_down_simps signed_in_simps Let_def)
  have ne: "measurements two_samples \<noteq> []"
    by (simp add: two_samples_state)
  have b: "let s' = on_message geo_near db_down auth_example 3000 (Json (msg ''stop'')) two_samples
      in ws_sent s' = ws_sent two_samples
             @ [ErrorMsg ''Failed to save measurements: connection lost'']
         \<and> measurements s' = [] \<and> authenticated s' \<and> ws_open s'"
    using C9_store_failure [OF two_samples_state(1,2,3), where data = "msg ''stop''"
        and geo = geo_near and db = db_down and auth = auth_example and now = 3000
        and e = "Error ''connection lost''"]
    by (auto simp add: ne db_down_simps msg_def Let_def)
  from a b show ?thesis by simp
qed

text \<open>
  C9 as stated fails for the best-zone lookup: with the record store unreachable, a valid
  measurement is answered by a single frame, and that frame is not an error.
\<close>

theorem C9_lookup_failure_counterexample:
  "findOne_near db_down ''u1'' (Num 77) (Num 12) (Num DEFAULT_RADIUS_M)
     = Inl (Error ''connection lost'')
   \<and> length (ws_sent (on_message geo_near db_down auth_example 1000
                        (Json (sample (- 10) 10 10)) signed_in)) = 1
   \<and> \<not> last_is_error (on_message geo_near db_down auth_example 1000
                        (Json (sample (- 10) 10 10)) signed_in)"
proof -
  have ra: "in_range (- 10) 10 10"
    by (simp add: in_range_def)
  have v: "isValidCoordinate geo_near (p_latitude (sample r s c)) (p_longitude (sample r s c))"
    for r s c
    by (simp add: sample_simps valid_12_77)
  from on_message_valid_measurement [OF signed_in_simps(1,4,2) sample_simps(1) v
      sample_simps(2,3,4) ra, where db = db_down and auth = auth_example and now = 1000]
  obtain resp where
    "ws_sent (on_message geo_near db_down auth_example 1000
                (Json (sample (- 10) 10 10)) signed_in) = [MeasurementResponse resp]"
    by (auto simp add: signed_in_simps)
  then show ?thesis
    by (simp add: last_is_error_def db_down_simps)
qed

end
